theory Spec2Isabelle
  imports Main "HOL-Library.Word"
begin

unbundle bit_operations_syntax

section \<open>Shallow embedding of gdb/windows-tdep.c\<close>

text \<open>
  The functions of \<^verbatim>\<open>gdb/windows-tdep.c\<close> that decode Windows process internals are
  written here as HOL functions. Target memory, core-file sections and the other services
  the file calls but does not define are explicit arguments. Bytes are \<open>8 word\<close>, target
  addresses (\<^verbatim>\<open>CORE_ADDR\<close>, \<^verbatim>\<open>bfd_vma\<close>, \<^verbatim>\<open>ULONGEST\<close>) are \<open>64 word\<close>, so address
  arithmetic wraps as it does in C.
\<close>

type_synonym byte = "8 word"
type_synonym CORE_ADDR = "64 word"

subsection \<open>Signals: \<^verbatim>\<open>windows_gdb_signal_from_target\<close>\<close>

text \<open>
  The constructors of \<^verbatim>\<open>enum gdb_signal\<close> that \<^verbatim>\<open>windows_gdb_signal_from_target\<close> can
  return (the enumeration itself is declared in \<^verbatim>\<open>include/gdb/signals.h\<close>).
\<close>

datatype gdb_signal =
    GDB_SIGNAL_0
  | GDB_SIGNAL_INT
  | GDB_SIGNAL_ILL
  | GDB_SIGNAL_TRAP
  | GDB_SIGNAL_ABRT
  | GDB_SIGNAL_FPE
  | GDB_SIGNAL_SEGV
  | GDB_SIGNAL_UNKNOWN

text \<open>
  \<^verbatim>\<open>windows_gdb_signal_from_target (gdbarch, int signal)\<close>. The argument is the bit
  pattern of the C \<^verbatim>\<open>int\<close>; \<^verbatim>\<open>unsigned int usignal = signal\<close> keeps the bits. The
  \<^verbatim>\<open>switch\<close> is an if-chain over its case labels, in the order of the source, with the
  labels exactly as the source spells them.
\<close>

definition windows_gdb_signal_from_target :: "32 word \<Rightarrow> gdb_signal" where
  "windows_gdb_signal_from_target signal =
     (let usignal = signal in
      if usignal = 0 then GDB_SIGNAL_0
      else if usignal = 0xC000005 \<or> usignal = 0xC0000FD then GDB_SIGNAL_SEGV
      else if usignal = 0xC00008C \<or> usignal = 0xC00008D \<or> usignal = 0xC00008E
            \<or> usignal = 0xC00008F \<or> usignal = 0xC000090 \<or> usignal = 0xC000091
            \<or> usignal = 0xC000092 \<or> usignal = 0xC000093 \<or> usignal = 0xC000094
            \<or> usignal = 0xC000095 then GDB_SIGNAL_FPE
      else if usignal = 0x8000003 \<or> usignal = 0x8000004 then GDB_SIGNAL_TRAP
      else if usignal = 0x4010005 \<or> usignal = 0x4010008 then GDB_SIGNAL_INT
      else if usignal = 0xC00001D \<or> usignal = 0xC000096 \<or> usignal = 0xC000025
        then GDB_SIGNAL_ILL
      else if usignal = 0x4000015 then GDB_SIGNAL_ABRT
      else GDB_SIGNAL_UNKNOWN)"

text \<open>The case labels of the \<^verbatim>\<open>switch\<close>, as a list, in source order.\<close>

definition signal_case_labels :: "32 word list" where
  "signal_case_labels =
     [0,
      0xC000005, 0xC0000FD,
      0xC00008C, 0xC00008D, 0xC00008E, 0xC00008F, 0xC000090, 0xC000091, 0xC000092,
      0xC000093, 0xC000094, 0xC000095,
      0x8000003, 0x8000004,
      0x4010005, 0x4010008,
      0xC00001D, 0xC000096, 0xC000025,
      0x4000015]"

text \<open>The table \<^verbatim>\<open>exception_values\<close> (value, name) of the source.\<close>

definition exception_values :: "(32 word \<times> string) list" where
  "exception_values =
     [(0x40000015, ''FATAL_APP_EXIT''),
      (0x4000001E, ''WX86_SINGLE_STEP''),
      (0x4000001F, ''WX86_BREAKPOINT''),
      (0x40010005, ''DBG_CONTROL_C''),
      (0x40010008, ''DBG_CONTROL_BREAK''),
      (0x80000002, ''DATATYPE_MISALIGNMENT''),
      (0x80000003, ''BREAKPOINT''),
      (0x80000004, ''SINGLE_STEP''),
      (0xC0000005, ''ACCESS_VIOLATION''),
      (0xC0000006, ''IN_PAGE_ERROR''),
      (0xC000001D, ''ILLEGAL_INSTRUCTION''),
      (0xC0000025, ''NONCONTINUABLE_EXCEPTION''),
      (0xC0000026, ''INVALID_DISPOSITION''),
      (0xC000008C, ''ARRAY_BOUNDS_EXCEEDED''),
      (0xC000008D, ''FLOAT_DENORMAL_OPERAND''),
      (0xC000008E, ''FLOAT_DIVIDE_BY_ZERO''),
      (0xC000008F, ''FLOAT_INEXACT_RESULT''),
      (0xC0000090, ''FLOAT_INVALID_OPERATION''),
      (0xC0000091, ''FLOAT_OVERFLOW''),
      (0xC0000092, ''FLOAT_STACK_CHECK''),
      (0xC0000093, ''FLOAT_UNDERFLOW''),
      (0xC0000094, ''INTEGER_DIVIDE_BY_ZERO''),
      (0xC0000095, ''INTEGER_OVERFLOW''),
      (0xC0000096, ''PRIV_INSTRUCTION''),
      (0xC00000FD, ''STACK_OVERFLOW''),
      (0xC0000409, ''FAST_FAIL'')]"

subsection \<open>Sections of a binary container\<close>

text \<open>
  Modelled from the spec: the binary-container reader (BFD) is an external collaborator
  (\<^verbatim>\<open>section_by_name\<close>, \<^verbatim>\<open>section_size\<close>, \<^verbatim>\<open>for_each_section\<close>). A section has a name,
  a virtual address and its bytes; \<open>sect_readable\<close> is false when reading its contents
  from the file fails. A container is the list of its sections in discovery order.
\<close>

record asection =
  sect_name :: string
  sect_vma :: "64 word"
  sect_contents :: "byte list"
  sect_readable :: bool

type_synonym bfd = "asection list"

definition bfd_section_size :: "asection \<Rightarrow> nat" where
  "bfd_section_size sect = length (sect_contents sect)"

definition bfd_get_section_by_name :: "bfd \<Rightarrow> string \<Rightarrow> asection option" where
  "bfd_get_section_by_name abfd name = find (\<lambda>s. sect_name s = name) abfd"

text \<open>
  \<^verbatim>\<open>bfd_get_section_contents (abfd, sect, buf, offset, count)\<close>: the \<open>count\<close> bytes at
  \<open>offset\<close>, or failure (\<open>None\<close>) when the range leaves the section or the file cannot
  be read.
\<close>

definition bfd_get_section_contents :: "asection \<Rightarrow> nat \<Rightarrow> nat \<Rightarrow> byte list option" where
  "bfd_get_section_contents sect offset count =
     (if sect_readable sect \<and> offset + count \<le> bfd_section_size sect
      then Some (take count (drop offset (sect_contents sect)))
      else None)"

subsection \<open>Exception record of a dump: \<^verbatim>\<open>windows_core_xfer_siginfo\<close>\<close>

definition EXC_SIZE_32 :: nat where
  "EXC_SIZE_32 = 80"

definition EXC_SIZE_64 :: nat where
  "EXC_SIZE_64 = 152"

text \<open>
  The local \<^verbatim>\<open>uint32_t rec[38]\<close> is kept as its 152 bytes, so that the model does not
  depend on the byte order of the host: \<open>rec_get rec i\<close> is the four bytes of \<^verbatim>\<open>rec[i]\<close>
  and \<open>rec_set rec i v\<close> stores four bytes there.
\<close>

definition rec_get :: "byte list \<Rightarrow> nat \<Rightarrow> byte list" where
  "rec_get rec i = take 4 (drop (4 * i) rec)"

definition rec_set :: "byte list \<Rightarrow> nat \<Rightarrow> byte list \<Rightarrow> byte list" where
  "rec_set rec i v = take (4 * i) rec @ v @ drop (4 * i + 4) rec"

text \<open>The loop \<^verbatim>\<open>for (r = 2; r < 19; r++) rec[r + 1] = rec[r * 2];\<close> from a given \<open>r\<close>.\<close>

function siginfo_compact :: "nat \<Rightarrow> byte list \<Rightarrow> byte list" where
  "siginfo_compact r rec =
     (if r < 19 then siginfo_compact (r + 1) (rec_set rec (r + 1) (rec_get rec (r * 2)))
      else rec)"
  by pat_completeness auto
termination
  by (relation "measure (\<lambda>(r, rec). 19 - r)") auto

declare siginfo_compact.simps [simp del]

text \<open>
  \<^verbatim>\<open>windows_core_xfer_siginfo (gdbarch, readbuf, offset, len)\<close>. \<open>ptr_bit\<close> is
  \<^verbatim>\<open>gdbarch_ptr_bit (gdbarch)\<close>. The result is \<open>None\<close> where the source returns -1, and
  otherwise the bytes stored to \<^verbatim>\<open>readbuf\<close>, whose number is the value returned.
  \<open>offset\<close> and \<open>len\<close> are \<^verbatim>\<open>ULONGEST\<close>; the only subtraction is guarded by
  \<open>offset \<le> EXC_SIZE_32\<close>.
\<close>

definition windows_core_xfer_siginfo :: "nat \<Rightarrow> bfd \<Rightarrow> nat \<Rightarrow> nat \<Rightarrow> byte list option" where
  "windows_core_xfer_siginfo ptr_bit core_bfd offset len =
     (case bfd_get_section_by_name core_bfd ''.coreexception'' of
        None \<Rightarrow> None
      | Some section \<Rightarrow>
          if ptr_bit = 32 then
            (if offset > EXC_SIZE_32 then None
             else if bfd_section_size section \<noteq> EXC_SIZE_64 then None
             else (case bfd_get_section_contents section 0 EXC_SIZE_64 of
                     None \<Rightarrow> None
                   | Some rec0 \<Rightarrow>
                       let rec = siginfo_compact 2 rec0;
                           len' = (if len > EXC_SIZE_32 - offset then EXC_SIZE_32 - offset
                                   else len)
                       in Some (take len' (drop offset rec))))
          else bfd_get_section_contents section offset len)"

text \<open>
  The logical 32-bit view of a stored 64-bit record, byte by byte: the first eight bytes
  (code and flags) are the stored ones; byte \<open>j\<close> of a later 4-byte slot \<open>j div 4\<close> is
  byte \<open>j mod 4\<close> of the stored 8-byte slot \<open>j div 4 - 1\<close>, that is a byte of its low 32
  bits in the little-endian layout of the record.
\<close>

definition low32_view :: "byte list \<Rightarrow> nat \<Rightarrow> byte" where
  "low32_view stored j =
     (if j < 8 then stored ! j else stored ! (8 * (j div 4 - 1) + j mod 4))"

text \<open>
  A dump whose \<^verbatim>\<open>.coreexception\<close> section holds the 152 bytes 0, 1, ..., 151.
\<close>

definition example_exception_section :: asection where
  "example_exception_section =
     \<lparr>sect_name = ''.coreexception'', sect_vma = 0,
      sect_contents = map of_nat [0..<152], sect_readable = True\<rparr>"

subsection \<open>Target memory and integers in target byte order\<close>

datatype bfd_endian = BFD_ENDIAN_BIG | BFD_ENDIAN_LITTLE | BFD_ENDIAN_UNKNOWN

text \<open>
  Modelled from the spec: \<^verbatim>\<open>extract_unsigned_integer (buf, len, byte_order)\<close> is a helper
  of the debugger that is not part of \<^verbatim>\<open>windows-tdep.c\<close>. It reads \<open>len\<close> bytes as an
  unsigned integer, most significant byte first for \<open>BFD_ENDIAN_BIG\<close> and least significant
  byte first otherwise. The callers here pass at most eight bytes.
\<close>

fun le_value :: "byte list \<Rightarrow> 64 word" where
  "le_value [] = 0"
| "le_value (b # bs) = ucast b + push_bit 8 (le_value bs)"

definition extract_unsigned_integer :: "byte list \<Rightarrow> bfd_endian \<Rightarrow> 64 word" where
  "extract_unsigned_integer buf byte_order =
     (if byte_order = BFD_ENDIAN_BIG then le_value (rev buf) else le_value buf)"

text \<open>
  Modelled from the spec: the memory of the target is an external collaborator,
  \<^verbatim>\<open>read_memory(address, length) -> bytes | fail\<close>. Memory is a partial map from addresses
  to bytes; \<open>target_read_memory\<close> gives \<open>Some\<close> bytes where the C function returns 0 and
  \<open>None\<close> where it reports a failure. A read either completes or fails as a whole.
\<close>

type_synonym memory = "CORE_ADDR \<Rightarrow> byte option"

fun target_read_memory :: "memory \<Rightarrow> CORE_ADDR \<Rightarrow> nat \<Rightarrow> byte list option" where
  "target_read_memory mem addr 0 = Some []"
| "target_read_memory mem addr (Suc len) =
     (case mem addr of
        None \<Rightarrow> None
      | Some b \<Rightarrow>
          (case target_read_memory mem (addr + 1) len of
             None \<Rightarrow> None
           | Some bs \<Rightarrow> Some (b # bs)))"

text \<open>
  What the functions use of a \<^verbatim>\<open>struct gdbarch\<close>: the pointer and address widths, the
  byte order, and the conversion of \<^verbatim>\<open>convert_between_encodings\<close> from the wide charset
  of the target to the charset of the host (charset conversion is an external
  collaborator, so it is a field here).
\<close>

record gdbarch =
  gdbarch_ptr_bit :: nat
  gdbarch_addr_bit :: nat
  gdbarch_byte_order :: bfd_endian
  wide_to_host :: "byte list \<Rightarrow> string"

text \<open>
  The state of the debugged target: its memory, the result of
  \<^verbatim>\<open>target_get_tib_address (inferior_ptid, &tlb)\<close> (\<open>None\<close> when it returns false),
  \<^verbatim>\<open>target_has_execution ()\<close>, and whether \<^verbatim>\<open>core_bfd\<close> is not null.
\<close>

record target =
  target_memory :: memory
  tib_address :: "CORE_ADDR option"
  has_execution :: bool
  has_core :: bool

text \<open>
  A host string in C ends at its first NUL: \<open>c_string cs\<close> is what a \<^verbatim>\<open>char *\<close> pointing at
  the characters \<open>cs\<close> denotes.
\<close>

definition NUL :: char where
  "NUL = CHR 0x00"

definition c_string :: "string \<Rightarrow> string" where
  "c_string cs = takeWhile (\<lambda>c. c \<noteq> NUL) cs"

subsection \<open>\<^verbatim>\<open>read_unicode_string\<close>\<close>

text \<open>
  \<^verbatim>\<open>read_unicode_string (addr, byte_order, ptr_bytes, gdbarch)\<close>. \<^verbatim>\<open>unsigned length\<close> is 32
  bits wide. \<^verbatim>\<open>xmalloc\<close> never returns null. The converted text is followed by a NUL
  (\<^verbatim>\<open>obstack_grow_str0\<close>) and assigned to the result as a \<^verbatim>\<open>char *\<close>.
\<close>

definition read_unicode_string ::
  "gdbarch \<Rightarrow> memory \<Rightarrow> CORE_ADDR \<Rightarrow> bfd_endian \<Rightarrow> nat \<Rightarrow> string option" where
  "read_unicode_string g mem addr byte_order ptr_bytes =
     (case target_read_memory mem addr 2 of
        None \<Rightarrow> None
      | Some buf \<Rightarrow>
          let length = (ucast (extract_unsigned_integer buf byte_order) :: 32 word) in
          if length > 0 then
            (case target_read_memory mem (addr + of_nat ptr_bytes) ptr_bytes of
               None \<Rightarrow> None
             | Some buf' \<Rightarrow>
                 let buffer = extract_unsigned_integer buf' byte_order in
                 (case target_read_memory mem buffer (unat length) of
                    None \<Rightarrow> None
                  | Some str_buf \<Rightarrow> Some (c_string (wide_to_host g str_buf @ [NUL]))))
          else None)"

subsection \<open>\<^verbatim>\<open>windows_info_proc\<close>\<close>

text \<open>The enumeration \<^verbatim>\<open>info_proc_what\<close> (declared in \<^verbatim>\<open>defs.h\<close>).\<close>

datatype info_proc_what =
    IP_MINIMAL | IP_MAPPINGS | IP_STATUS | IP_STAT | IP_CMDLINE | IP_EXE | IP_CWD | IP_FILES
  | IP_ALL

text \<open>The two calls of \<^verbatim>\<open>error\<close>, named after their messages.\<close>

datatype info_proc_error =
    Only_supported_for_the_current_process
  | No_current_process

text \<open>What the command writes: a line of \<^verbatim>\<open>gdb_printf\<close>, or the message of a \<^verbatim>\<open>warning\<close>.\<close>

datatype info_proc_output = Printf string | Warning string

text \<open>
  \<^verbatim>\<open>windows_info_proc (gdbarch, args, what)\<close>. \<open>args\<close> is \<open>None\<close> for a null pointer. The
  result is \<open>Inl\<close> the error raised, or \<open>Inr\<close> the output in the order it is written.
\<close>

definition windows_info_proc ::
  "gdbarch \<Rightarrow> target \<Rightarrow> string option \<Rightarrow> info_proc_what
     \<Rightarrow> info_proc_error + info_proc_output list" where
  "windows_info_proc g t args what =
     (if (case args of None \<Rightarrow> False | Some a \<Rightarrow> a \<noteq> [])
        then Inl Only_supported_for_the_current_process
      else if \<not> has_execution t \<and> \<not> has_core t then Inl No_current_process
      else
        let byte_order = gdbarch_byte_order g;
            (ptr_bytes, peb_offset, pp_offset, cmd_offset, cwd_offset, exe_offset) =
              (if gdbarch_ptr_bit g = 32 then (4, 48, 16, 64, 36, 56)
               else (8, 96, 32, 112, 56, 96 :: nat));
            want_cmd = (what = IP_MINIMAL \<or> what = IP_CMDLINE \<or> what = IP_ALL);
            want_cwd = (what = IP_MINIMAL \<or> what = IP_CWD \<or> what = IP_ALL);
            want_exe = (what = IP_MINIMAL \<or> what = IP_EXE \<or> what = IP_ALL);
            mem = target_memory t;
            (cmd_str, cwd_str, exe_str) =
              (if want_cmd \<or> want_cwd \<or> want_exe then
                 (case tib_address t of
                    None \<Rightarrow> (None, None, None)
                  | Some tlb \<Rightarrow>
                      (case target_read_memory mem (tlb + of_nat peb_offset) ptr_bytes of
                         None \<Rightarrow> (None, None, None)
                       | Some buf \<Rightarrow>
                           let peb = extract_unsigned_integer buf byte_order in
                           (case target_read_memory mem (peb + of_nat pp_offset) ptr_bytes of
                              None \<Rightarrow> (None, None, None)
                            | Some buf' \<Rightarrow>
                                let pp = extract_unsigned_integer buf' byte_order in
                                ((if want_cmd
                                  then read_unicode_string g mem (pp + of_nat cmd_offset)
                                         byte_order ptr_bytes
                                  else None),
                                 (if want_cwd
                                  then read_unicode_string g mem (pp + of_nat cwd_offset)
                                         byte_order ptr_bytes
                                  else None),
                                 (if want_exe
                                  then read_unicode_string g mem (pp + of_nat exe_offset)
                                         byte_order ptr_bytes
                                  else None)))))
               else (None, None, None))
        in Inr
          ((if want_cmd then
              [case cmd_str of Some s \<Rightarrow> Printf (''cmdline = '' @ [CHR 0x27] @ s @ [CHR 0x27, CHR 0x0A])
               | None \<Rightarrow> Warning ''unable to read cmdline'']
            else [])
           @ (if want_cwd then
              [case cwd_str of Some s \<Rightarrow> Printf (''cwd = '' @ [CHR 0x27] @ s @ [CHR 0x27, CHR 0x0A])
               | None \<Rightarrow> Warning ''unable to read cwd'']
            else [])
           @ (if want_exe then
              [case exe_str of Some s \<Rightarrow> Printf (''exe = '' @ [CHR 0x27] @ s @ [CHR 0x27, CHR 0x0A])
               | None \<Rightarrow> Warning ''unable to read exe'']
            else [])))"

subsection \<open>The process-info query field by field\<close>










subsection \<open>Example data\<close>

text \<open>
  Modelled from the spec: charset conversion (\<^verbatim>\<open>wide_bytes_to_host_string\<close>) is an
  external collaborator. This stand-in is the conversion of the example architecture: it
  re-encodes UTF-16LE text, each code unit below 256 as the character of its low byte and
  any other code unit as a question mark.
\<close>

fun utf16le_to_host :: "byte list \<Rightarrow> string" where
  "utf16le_to_host (lo # hi # rest) =
     (if hi = 0 then char_of (unat lo) else CHR ''?'') # utf16le_to_host rest"
| "utf16le_to_host _ = []"

text \<open>A memory made of mapped ranges, each a base address and its bytes.\<close>

fun memory_of :: "(CORE_ADDR \<times> byte list) list \<Rightarrow> memory" where
  "memory_of [] a = None"
| "memory_of ((base, bs) # rest) a =
     (if base \<le> a \<and> unat (a - base) < length bs then Some (bs ! unat (a - base))
      else memory_of rest a)"

definition example_gdbarch :: gdbarch where
  "example_gdbarch =
     \<lparr>gdbarch_ptr_bit = 64, gdbarch_addr_bit = 64, gdbarch_byte_order = BFD_ENDIAN_LITTLE,
      wide_to_host = utf16le_to_host\<rparr>"

text \<open>
  A 64-bit little-endian target. The TIB is at \<open>0x7000\<close>, its PEB pointer (offset 96)
  leads to \<open>0x8000\<close>, the process parameters pointer (offset 32) to \<open>0x9000\<close>. The
  executable path (offset 96) is \<open>ab\<close> and the command line (offset 112) is \<open>a b\<close>; the
  working directory (offset 56) is not mapped. At \<open>0xB000\<close> is a unicode string of
  length 4 whose text is the letter a followed by the code unit 0.
\<close>

definition example_memory :: memory where
  "example_memory = memory_of
     [(0x7060, [0x00, 0x80, 0, 0, 0, 0, 0, 0]),
      (0x8020, [0x00, 0x90, 0, 0, 0, 0, 0, 0]),
      (0x9060, [4, 0, 6, 0, 0, 0, 0, 0, 0x00, 0xA1, 0, 0, 0, 0, 0, 0]),
      (0x9070, [6, 0, 8, 0, 0, 0, 0, 0, 0x00, 0xA0, 0, 0, 0, 0, 0, 0]),
      (0xA000, [0x61, 0, 0x20, 0, 0x62, 0]),
      (0xA100, [0x61, 0, 0x62, 0]),
      (0xB000, [4, 0, 4, 0, 0, 0, 0, 0, 0x00, 0xB1, 0, 0, 0, 0, 0, 0]),
      (0xB100, [0x61, 0, 0, 0])]"

definition example_target :: target where
  "example_target =
     \<lparr>target_memory = example_memory, tib_address = Some 0x7000,
      has_execution = True, has_core = False\<rparr>"

subsection \<open>Entry-point breakpoint: \<^verbatim>\<open>entry_point_breakpoint::re_set\<close>\<close>

text \<open>
  A breakpoint location has a program space and an address; a \<^verbatim>\<open>symtab_and_line\<close> names
  a program space and a program counter. Program spaces are identified by numbers.
\<close>

type_synonym program_space = nat

record bp_location =
  loc_pspace :: program_space
  loc_address :: CORE_ADDR

record symtab_and_line =
  sal_pspace :: program_space
  sal_pc :: CORE_ADDR

text \<open>
  Modelled from the spec: the breakpoint subsystem is an external collaborator. An address
  location specification (\<^verbatim>\<open>new_address_location_spec (entry_point, nullptr, 0)\<close>) decodes,
  in a program space, to the one \<^verbatim>\<open>symtab_and_line\<close> at that address.
\<close>

definition decode_location_spec :: "CORE_ADDR \<Rightarrow> program_space \<Rightarrow> symtab_and_line list" where
  "decode_location_spec address pspace = [\<lparr>sal_pspace = pspace, sal_pc = address\<rparr>]"

text \<open>
  The loop of \<^verbatim>\<open>re_set\<close> over \<^verbatim>\<open>locations ()\<close>: true when it reaches its \<^verbatim>\<open>return\<close>, that
  is when some location of the current program space is at the entry point.
\<close>

fun entry_point_unchanged :: "program_space \<Rightarrow> CORE_ADDR \<Rightarrow> bp_location list \<Rightarrow> bool" where
  "entry_point_unchanged current_program_space entry_point [] = False"
| "entry_point_unchanged current_program_space entry_point (loc # locs) =
     (if loc_pspace loc = current_program_space \<and> loc_address loc = entry_point then True
      else entry_point_unchanged current_program_space entry_point locs)"

text \<open>
  \<^verbatim>\<open>entry_point_breakpoint::re_set ()\<close>. \<open>entry_point\<close> is the value cached for the current
  program space (\<^verbatim>\<open>info->entry_point\<close>). \<^verbatim>\<open>update_breakpoint_locations\<close> belongs to the
  breakpoint subsystem and is the argument \<open>update\<close>: it maps the program space, the new
  \<^verbatim>\<open>symtab_and_line\<close> list and the old locations to the new locations. The result is the
  locations of the breakpoint afterwards, and the calls of \<open>update\<close> made (the
  relocations), each with its arguments.
\<close>

definition re_set ::
  "(program_space \<Rightarrow> symtab_and_line list \<Rightarrow> bp_location list \<Rightarrow> bp_location list)
     \<Rightarrow> program_space \<Rightarrow> CORE_ADDR \<Rightarrow> bp_location list
     \<Rightarrow> bp_location list \<times> (program_space \<times> symtab_and_line list) list" where
  "re_set update current_program_space entry_point locations =
     (if entry_point_unchanged current_program_space entry_point locations
      then (locations, [])
      else
        let sals = decode_location_spec entry_point current_program_space
        in (update current_program_space sals locations, [(current_program_space, sals)]))"

text \<open>
  An update function for the examples: it drops the locations of the program space and
  adds one location for each \<^verbatim>\<open>symtab_and_line\<close>.
\<close>

definition example_update ::
  "program_space \<Rightarrow> symtab_and_line list \<Rightarrow> bp_location list \<Rightarrow> bp_location list" where
  "example_update pspace sals locs =
     filter (\<lambda>loc. loc_pspace loc \<noteq> pspace) locs
     @ map (\<lambda>sal. \<lparr>loc_pspace = sal_pspace sal, loc_address = sal_pc sal\<rparr>) sals"

subsection \<open>PE import directory: \<^verbatim>\<open>is_linked_with_cygwin_dll\<close>\<close>

text \<open>
  What the function reads of a PE binary: its sections, and from the optional header the
  image base and the virtual address of the import table
  (\<^verbatim>\<open>DataDirectory[PE_IMPORT_TABLE].VirtualAddress\<close>).
\<close>

record pe_bfd =
  pe_sections :: bfd
  pe_ImageBase :: "64 word"
  pe_import_table_va :: "64 word"

text \<open>The four warnings of the function, in source order.\<close>

datatype import_warning =
    Import_table_outside_idata
  | Failed_to_get_contents
  | Unexpected_end_of_idata
  | Name_outside_idata

text \<open>
  What the source does not return from: a failed \<^verbatim>\<open>gdb_assert\<close>, and a read outside the
  buffer of the section contents, which is undefined behaviour in C.
\<close>

datatype fault = Assertion_failed | Read_outside_buffer

definition CYGWIN_DLL_NAME :: string where
  "CYGWIN_DLL_NAME = ''cygwin1.dll''"

text \<open>The bytes of a C string literal, with its terminating NUL.\<close>

definition c_literal :: "string \<Rightarrow> byte list" where
  "c_literal s = map of_char s @ [0]"

text \<open>\<^verbatim>\<open>sizeof (pe_import_directory_entry)\<close>, asserted to be 20 by the source.\<close>

definition sizeof_pe_import_directory_entry :: nat where
  "sizeof_pe_import_directory_entry = 20"

text \<open>
  Reading \<open>n\<close> bytes at offset \<open>off\<close> of a buffer: a fault when the range leaves the
  buffer.
\<close>

definition read_range :: "byte list \<Rightarrow> nat \<Rightarrow> nat \<Rightarrow> fault + byte list" where
  "read_range buf off n =
     (if off + n \<le> length buf then Inr (take n (drop off buf)) else Inl Read_outside_buffer)"

text \<open>
  \<^verbatim>\<open>streq ((const char *) name, lit)\<close>, that is \<^verbatim>\<open>strcmp\<close> giving 0: the bytes at offset
  \<open>i\<close> of the buffer are compared with the literal one by one, up to the first difference
  or the NUL that ends both.
\<close>

fun streq_at :: "byte list \<Rightarrow> nat \<Rightarrow> byte list \<Rightarrow> fault + bool" where
  "streq_at buf i [] = Inr True"
| "streq_at buf i (c # cs) =
     (case read_range buf i 1 of
        Inl f \<Rightarrow> Inl f
      | Inr b \<Rightarrow>
          if b \<noteq> [c] then Inr False
          else if c = 0 then Inr True
          else streq_at buf (i + 1) cs)"

text \<open>
  The loop over the directory entries. \<open>iter\<close> and \<open>name\<close> are offsets into
  \<open>idata_contents\<close> (the pointers of the source minus \<^verbatim>\<open>idata_contents.data ()\<close>), and
  \<open>end\<close> is its length. \<^verbatim>\<open>dir_entry->name_rva\<close> is read in the byte order of the host.
\<close>

function import_walk ::
  "bfd_endian \<Rightarrow> byte list \<Rightarrow> 64 word \<Rightarrow> 64 word \<Rightarrow> nat \<Rightarrow> fault + (bool \<times> import_warning list)"
  where
  "import_walk host idata_contents idata_section_va idata_section_end_va iter =
     (if iter + sizeof_pe_import_directory_entry > length idata_contents
      then Inr (False, [Unexpected_end_of_idata])
      else
        (case read_range idata_contents iter sizeof_pe_import_directory_entry of
           Inl f \<Rightarrow> Inl f
         | Inr dir_entry \<Rightarrow>
             if dir_entry = replicate sizeof_pe_import_directory_entry 0 then Inr (False, [])
             else
               let name_va = extract_unsigned_integer (take 4 (drop 12 dir_entry)) host in
               if name_va < idata_section_va \<or> name_va \<ge> idata_section_end_va
               then Inr (False, [Name_outside_idata])
               else
                 let name = unat (name_va - idata_section_va) in
                 if name + length (c_literal CYGWIN_DLL_NAME) \<le> length idata_contents
                 then
                   (case streq_at idata_contents name (c_literal CYGWIN_DLL_NAME) of
                      Inl f \<Rightarrow> Inl f
                    | Inr eq \<Rightarrow>
                        if eq then Inr (True, [])
                        else import_walk host idata_contents idata_section_va
                               idata_section_end_va (iter + sizeof_pe_import_directory_entry))
                 else import_walk host idata_contents idata_section_va
                        idata_section_end_va (iter + sizeof_pe_import_directory_entry)))"
  by pat_completeness auto
termination
  by (relation "measure (\<lambda>(host, idata_contents, va, end_va, iter). length idata_contents - iter)")
     (auto simp: sizeof_pe_import_directory_entry_def)

declare import_walk.simps [simp del]

text \<open>
  \<^verbatim>\<open>is_linked_with_cygwin_dll (abfd)\<close>. The result is \<open>Inr\<close> the value returned with the
  warnings issued, or \<open>Inl\<close> a fault. \<^verbatim>\<open>bfd_size_type\<close> and \<^verbatim>\<open>bfd_vma\<close> are 64 bits wide.
\<close>

definition is_linked_with_cygwin_dll ::
  "bfd_endian \<Rightarrow> pe_bfd \<Rightarrow> fault + (bool \<times> import_warning list)" where
  "is_linked_with_cygwin_dll host abfd =
     (case bfd_get_section_by_name (pe_sections abfd) ''.idata'' of
        None \<Rightarrow> Inr (False, [])
      | Some idata_section \<Rightarrow>
          let idata_section_size = (of_nat (bfd_section_size idata_section) :: 64 word);
              import_table_va = pe_import_table_va abfd;
              idata_section_va0 = sect_vma idata_section
          in
          if \<not> idata_section_va0 \<ge> pe_ImageBase abfd then Inl Assertion_failed
          else
            let idata_section_va = idata_section_va0 - pe_ImageBase abfd;
                idata_section_end_va = idata_section_va + idata_section_size
            in
            if import_table_va < idata_section_va \<or> import_table_va \<ge> idata_section_end_va
            then Inr (False, [Import_table_outside_idata])
            else
              let import_table_offset_in_sect = import_table_va - idata_section_va in
              (case bfd_get_section_contents idata_section 0 (bfd_section_size idata_section) of
                 None \<Rightarrow> Inr (False, [Failed_to_get_contents])
               | Some idata_contents \<Rightarrow>
                   if of_nat (length idata_contents) \<noteq> idata_section_size
                   then Inl Assertion_failed
                   else import_walk host idata_contents idata_section_va idata_section_end_va
                          (unat import_table_offset_in_sect)))"

text \<open>
  Two hand-built binaries with image base \<open>0x400000\<close>. Their \<^verbatim>\<open>.idata\<close> section of 80 bytes
  is at \<open>0x402000\<close> and starts with the import directory: two entries and the all-zero
  terminator, then the names at offsets 60 and 68. The first imports \<open>foo.dll\<close> and
  \<open>cygwin1.dll\<close>; the second imports \<open>foo.dll\<close> and \<open>bar.dll\<close>.
\<close>

definition example_directory :: "byte list" where
  "example_directory =
     [0x50, 0x20, 0, 0,  0, 0, 0, 0,  0, 0, 0, 0,  0x3C, 0x20, 0, 0,  0x50, 0x20, 0, 0,
      0x50, 0x20, 0, 0,  0, 0, 0, 0,  0, 0, 0, 0,  0x44, 0x20, 0, 0,  0x50, 0x20, 0, 0,
      0, 0, 0, 0,  0, 0, 0, 0,  0, 0, 0, 0,  0, 0, 0, 0,  0, 0, 0, 0]"

definition example_pe :: "byte list \<Rightarrow> 64 word \<Rightarrow> pe_bfd" where
  "example_pe names import_table_va =
     \<lparr>pe_sections =
        [\<lparr>sect_name = ''.text'', sect_vma = 0x401000, sect_contents = [0xC3],
          sect_readable = True\<rparr>,
         \<lparr>sect_name = ''.idata'', sect_vma = 0x402000,
          sect_contents = example_directory @ names, sect_readable = True\<rparr>],
      pe_ImageBase = 0x400000,
      pe_import_table_va = import_table_va\<rparr>"

definition example_names_cygwin :: "byte list" where
  "example_names_cygwin = c_literal ''foo.dll'' @ c_literal ''cygwin1.dll''"

definition example_names_other :: "byte list" where
  "example_names_other = c_literal ''foo.dll'' @ c_literal ''bar.dll'' @ [0, 0, 0, 0]"

text \<open>
  The field \<^verbatim>\<open>name_rva\<close> of the directory entry at offset \<open>iter\<close> of the contents, read
  in the byte order of the host.
\<close>

definition entry_name_va :: "bfd_endian \<Rightarrow> byte list \<Rightarrow> nat \<Rightarrow> 64 word" where
  "entry_name_va host idata_contents iter =
     extract_unsigned_integer (take 4 (drop (iter + 12) idata_contents)) host"

text \<open>
  A directory entry, after the words of the specification. The entry at offset \<open>iter\<close> is
  live when its 20 bytes lie within the contents, it is not the all-zero terminator, and its
  name pointer lies within the address range of the section. It names the library when the
  null-terminated name at its name pointer is \<open>cygwin1.dll\<close>, exactly, and the comparison
  stays within the contents.
\<close>

definition entry_live :: "bfd_endian \<Rightarrow> byte list \<Rightarrow> 64 word \<Rightarrow> 64 word \<Rightarrow> nat \<Rightarrow> bool" where
  "entry_live host idata_contents va end_va iter =
     (iter + 20 \<le> length idata_contents
      \<and> take 20 (drop iter idata_contents) \<noteq> replicate 20 0
      \<and> va \<le> entry_name_va host idata_contents iter
      \<and> entry_name_va host idata_contents iter < end_va)"

definition entry_names_cygwin :: "bfd_endian \<Rightarrow> byte list \<Rightarrow> 64 word \<Rightarrow> nat \<Rightarrow> bool" where
  "entry_names_cygwin host idata_contents va iter =
     (unat (entry_name_va host idata_contents iter - va) + 12 \<le> length idata_contents
      \<and> take 12 (drop (unat (entry_name_va host idata_contents iter - va)) idata_contents)
          = c_literal CYGWIN_DLL_NAME)"

subsection \<open>Module list of a dump: \<^verbatim>\<open>windows_core_xfer_shared_libraries\<close>\<close>

definition NOTE_INFO_MODULE :: "32 word" where
  "NOTE_INFO_MODULE = 3"

definition NOTE_INFO_MODULE64 :: "32 word" where
  "NOTE_INFO_MODULE64 = 4"

text \<open>\<^verbatim>\<open>startswith (string, pattern)\<close>: the string begins with the pattern.\<close>

definition startswith :: "string \<Rightarrow> string \<Rightarrow> bool" where
  "startswith s pattern = (take (length pattern) s = pattern)"

text \<open>The bytes of a buffer read as host characters (\<^verbatim>\<open>(char *) buf.data ()\<close>).\<close>

definition chars_of_bytes :: "byte list \<Rightarrow> string" where
  "chars_of_bytes bs = map (\<lambda>b. char_of (unat b)) bs"

text \<open>
  Modelled from the spec: \<^verbatim>\<open>xml_escape_text\<close> belongs to the XML support of the debugger.
  It replaces the five characters that XML reserves by their entities.
\<close>

fun xml_escape_text :: "string \<Rightarrow> string" where
  "xml_escape_text [] = []"
| "xml_escape_text (c # cs) =
     (if c = CHR ''<'' then ''&lt;''
      else if c = CHR ''>'' then ''&gt;''
      else if c = CHR ''&'' then ''&amp;''
      else if c = CHR 0x27 then ''&apos;''
      else if c = CHR 0x22 then ''&quot;''
      else [c]) @ xml_escape_text cs"

text \<open>
  Modelled from the spec: \<^verbatim>\<open>paddress (gdbarch, addr)\<close> and \<^verbatim>\<open>hex_string\<close> are utilities of
  the debugger. An address is printed as \<open>0x\<close> and its lower-case hexadecimal digits,
  without leading zeros, after it is cut to the address width of the architecture.
\<close>

definition hex_digit :: "nat \<Rightarrow> char" where
  "hex_digit d = ''0123456789abcdef'' ! d"

function hex_digits :: "nat \<Rightarrow> string" where
  "hex_digits n =
     (if n < 16 then [hex_digit n] else hex_digits (n div 16) @ [hex_digit (n mod 16)])"
  by pat_completeness auto
termination
  by (relation "measure id") auto

declare hex_digits.simps [simp del]

definition hex_string :: "64 word \<Rightarrow> string" where
  "hex_string addr = ''0x'' @ hex_digits (unat addr)"

definition paddress :: "gdbarch \<Rightarrow> CORE_ADDR \<Rightarrow> string" where
  "paddress g addr =
     hex_string (if gdbarch_addr_bit g < 64
                 then addr AND (push_bit (gdbarch_addr_bit g) 1 - 1) else addr)"

text \<open>
  Modelled from the spec: \<^verbatim>\<open>sscanf (s, "%llx", &base_addr)\<close> is the C library. The model
  reads the hexadecimal digits that \<open>s\<close> starts with, modulo \<open>2 ^ 64\<close>, and fails
  (\<open>None\<close>: nothing is assigned) when \<open>s\<close> does not start with a digit. Leading white
  space, a sign and a \<open>0x\<close> prefix, which the library also accepts, do not occur in the
  section names written as \<^verbatim>\<open>.coremodule/<hex-address>\<close> and are not modelled.
\<close>

definition hex_digit_value :: "char \<Rightarrow> nat option" where
  "hex_digit_value c =
     map_of
       [(CHR ''0'', 0), (CHR ''1'', 1), (CHR ''2'', 2), (CHR ''3'', 3), (CHR ''4'', 4),
        (CHR ''5'', 5), (CHR ''6'', 6), (CHR ''7'', 7), (CHR ''8'', 8), (CHR ''9'', 9),
        (CHR ''a'', 10), (CHR ''b'', 11), (CHR ''c'', 12), (CHR ''d'', 13), (CHR ''e'', 14),
        (CHR ''f'', 15),
        (CHR ''A'', 10), (CHR ''B'', 11), (CHR ''C'', 12), (CHR ''D'', 13), (CHR ''E'', 14),
        (CHR ''F'', 15)] c"

fun parse_hex :: "64 word \<Rightarrow> string \<Rightarrow> 64 word" where
  "parse_hex acc [] = acc"
| "parse_hex acc (c # cs) =
     (case hex_digit_value c of
        None \<Rightarrow> acc
      | Some d \<Rightarrow> parse_hex (acc * 16 + of_nat d) cs)"

definition sscanf_llx :: "string \<Rightarrow> 64 word option" where
  "sscanf_llx s =
     (case s of
        [] \<Rightarrow> None
      | c # cs \<Rightarrow> (case hex_digit_value c of None \<Rightarrow> None | Some d \<Rightarrow> Some (parse_hex 0 s)))"

text \<open>
  What the module scan takes from outside: \<open>text_offset_of so_name\<close> is
  \<^verbatim>\<open>pe_text_section_offset (gdb_bfd_open (so_name, gnutarget))\<close>, the offset of the text
  section of the library file of that name, which is \<open>0x1000\<close> when the file cannot be
  opened; \<open>indeterminate_base_addr\<close> is the value of the local \<^verbatim>\<open>base_addr\<close> where the
  source leaves it uninitialised because \<^verbatim>\<open>sscanf\<close> assigned nothing.
\<close>

record module_env =
  text_offset_of :: "string \<Rightarrow> CORE_ADDR"
  indeterminate_base_addr :: "64 word"

text \<open>
  \<^verbatim>\<open>windows_xfer_shared_library (so_name, load_addr, text_offset_cached, gdbarch,
  obstack)\<close>. \<open>text_offset_cached\<close> is \<open>None\<close> for a null pointer and \<open>Some v\<close> for a
  pointer to the value \<open>v\<close>. The result is the obstack grown by the library element, and
  the value behind the pointer afterwards.
\<close>

definition windows_xfer_shared_library ::
  "module_env \<Rightarrow> gdbarch \<Rightarrow> string \<Rightarrow> CORE_ADDR \<Rightarrow> CORE_ADDR option \<Rightarrow> string
     \<Rightarrow> string \<times> CORE_ADDR option" where
  "windows_xfer_shared_library env g so_name load_addr text_offset_cached obstack =
     (let text_offset0 = (case text_offset_cached of Some v \<Rightarrow> v | None \<Rightarrow> 0);
          obstack1 = obstack @ ''<library name='' @ [CHR 0x22] @ xml_escape_text so_name
                       @ [CHR 0x22] @ ''><segment address='' @ [CHR 0x22];
          text_offset = (if text_offset0 = 0 then text_offset_of env so_name else text_offset0);
          text_offset_cached' =
            (if text_offset0 = 0 then map_option (\<lambda>v. text_offset) text_offset_cached
             else text_offset_cached)
      in (obstack1 @ paddress g (load_addr + text_offset) @ [CHR 0x22] @ ''/></library>'',
          text_offset_cached'))"

text \<open>
  \<^verbatim>\<open>core_get_module_name\<close> of a build that is not for a Windows host (the code under
  \<^verbatim>\<open>#ifdef _WIN32\<close> asks a symbol server and is left out): the wide name converted
  to the host charset, followed by a NUL and returned as a \<^verbatim>\<open>char *\<close>.
\<close>

definition core_get_module_name :: "gdbarch \<Rightarrow> byte list \<Rightarrow> string" where
  "core_get_module_name g wide_name = c_string (wide_to_host g wide_name @ [NUL])"

text \<open>
  \<^verbatim>\<open>struct cpms_data\<close>: the obstack that collects the document, and the module counter (a
  C \<^verbatim>\<open>int\<close>, which a scan increments at most once for each section).
\<close>

record cpms_data =
  cpms_obstack :: string
  module_count :: int

text \<open>
  The end of \<^verbatim>\<open>core_process_module_section\<close> for a legacy section, after the type tag has
  given \<open>module_name_offset\<close>, \<open>base_addr\<close> and \<open>module_name_size\<close>. \<open>buf\<close> is the
  buffer of \<open>sect_size + 1\<close> bytes. \<open>module_name_size\<close> is a 32-bit value held in a
  \<^verbatim>\<open>size_t\<close> of 64 bits, so its sum with the offset does not wrap.
\<close>

definition legacy_module_section ::
  "module_env \<Rightarrow> gdbarch \<Rightarrow> nat \<Rightarrow> byte list \<Rightarrow> nat \<Rightarrow> 64 word \<Rightarrow> nat \<Rightarrow> cpms_data \<Rightarrow> cpms_data"
  where
  "legacy_module_section env g sect_size buf module_name_offset base_addr module_name_size data =
     (if module_name_offset + module_name_size > sect_size then data
      else
        let module_name = c_string (chars_of_bytes (drop module_name_offset buf)) in
        (if module_count data \<noteq> 0
         then data\<lparr>cpms_obstack :=
                     fst (windows_xfer_shared_library env g module_name base_addr None
                            (cpms_obstack data)),
                   module_count := module_count data + 1\<rparr>
         else data\<lparr>module_count := module_count data + 1\<rparr>))"

text \<open>\<^verbatim>\<open>core_process_module_section (abfd, sect, obj)\<close>, with \<open>data\<close> for \<^verbatim>\<open>*obj\<close>.\<close>

definition core_process_module_section ::
  "module_env \<Rightarrow> gdbarch \<Rightarrow> asection \<Rightarrow> cpms_data \<Rightarrow> cpms_data" where
  "core_process_module_section env g sect data =
     (let byte_order = gdbarch_byte_order g;
          is_module = startswith (sect_name sect) ''.module'';
          is_coremodule = startswith (sect_name sect) ''.coremodule/''
      in
      if \<not> is_module \<and> \<not> is_coremodule then data
      else
        (case bfd_get_section_contents sect 0 (bfd_section_size sect) of
           None \<Rightarrow> data
         | Some contents \<Rightarrow>
             let buf = contents @ [0] in
             if is_coremodule then
               (if module_count data \<noteq> 0 then
                  let base_addr = (case sscanf_llx (drop 12 (sect_name sect)) of
                                     Some a \<Rightarrow> a
                                   | None \<Rightarrow> indeterminate_base_addr env);
                      module_name =
                        core_get_module_name g (take (bfd_section_size sect) buf)
                  in data\<lparr>cpms_obstack :=
                             fst (windows_xfer_shared_library env g module_name base_addr None
                                    (cpms_obstack data)),
                           module_count := module_count data + 1\<rparr>
                else data\<lparr>module_count := module_count data + 1\<rparr>)
             else if bfd_section_size sect < 4 then data
             else
               let data_type = (ucast (extract_unsigned_integer (take 4 buf) byte_order)
                                  :: 32 word)
               in
               if data_type = NOTE_INFO_MODULE then
                 (if bfd_section_size sect < 12 then data
                  else legacy_module_section env g (bfd_section_size sect) buf 12
                         (extract_unsigned_integer (take 4 (drop 4 buf)) byte_order)
                         (unat (extract_unsigned_integer (take 4 (drop 8 buf)) byte_order))
                         data)
               else if data_type = NOTE_INFO_MODULE64 then
                 (if bfd_section_size sect < 16 then data
                  else legacy_module_section env g (bfd_section_size sect) buf 16
                         (extract_unsigned_integer (take 8 (drop 4 buf)) byte_order)
                         (unat (extract_unsigned_integer (take 4 (drop 12 buf)) byte_order))
                         data)
               else data))"

text \<open>
  \<^verbatim>\<open>windows_core_xfer_shared_libraries (gdbarch, readbuf, offset, len)\<close>.
  \<open>last_xfer_libraries\<close> is the cached document (\<open>None\<close> for a null pointer). The result
  is the characters copied to \<^verbatim>\<open>readbuf\<close>, whose number is the value returned, and the
  cache afterwards. \<^verbatim>\<open>bfd_map_over_sections\<close> visits the sections in their order;
  \<^verbatim>\<open>xstrdup\<close> copies the obstack as a C string.
\<close>

definition windows_core_xfer_shared_libraries ::
  "module_env \<Rightarrow> gdbarch \<Rightarrow> bfd \<Rightarrow> string option \<Rightarrow> nat \<Rightarrow> nat \<Rightarrow> string \<times> string option"
  where
  "windows_core_xfer_shared_libraries env g core_bfd last_xfer_libraries offset len =
     (let last =
            (case last_xfer_libraries of
               Some cached \<Rightarrow> cached
             | None \<Rightarrow>
                 let data0 = \<lparr>cpms_obstack = ''<library-list>'' @ [CHR 0x0A], module_count = 0\<rparr>;
                     data = fold (core_process_module_section env g) core_bfd data0
                 in c_string (cpms_obstack data @ ''</library-list>'' @ [CHR 0x0A] @ [NUL]));
          len_avail = length last
      in
      if offset \<ge> len_avail then ([], Some last)
      else
        let len' = (if len > len_avail - offset then len_avail - offset else len)
        in (take len' (drop offset last), Some last))"

subsection \<open>The module list module by module\<close>

text \<open>
  The module that \<open>core_process_module_section\<close> extracts from one section, if any, as
  the name and the load address that it passes on, without the scan data: the same tests
  and the same expressions as above. A section of the indexed convention
  \<^verbatim>\<open>.coremodule/<hex-address>\<close> gives the C string at the start of the host re-encoding
  of its payload, so the name ends at the first NUL character, and the load address
  scanned from its name. A section of the legacy convention \<^verbatim>\<open>.module\<close> carries a 4-byte
  type tag, a base address, a name length and a name; it gives the C string at the fixed
  name offset of its tag, so the name ends at the first NUL byte or at the end of the
  section, and the declared name length is used only by the size check.
\<close>

definition decode_module :: "module_env \<Rightarrow> gdbarch \<Rightarrow> asection \<Rightarrow> (string \<times> CORE_ADDR) option"
  where
  "decode_module env g sect =
     (let sz = bfd_section_size sect; bo = gdbarch_byte_order g; c = sect_contents sect in
      if \<not> sect_readable sect then None
      else if startswith (sect_name sect) ''.coremodule/'' then
        Some (c_string (wide_to_host g c),
              (case sscanf_llx (drop 12 (sect_name sect)) of
                 Some a \<Rightarrow> a | None \<Rightarrow> indeterminate_base_addr env))
      else if \<not> startswith (sect_name sect) ''.module'' then None
      else if sz < 4 then None
      else if (ucast (extract_unsigned_integer (take 4 c) bo) :: 32 word) = 3 then
        (if sz < 12 \<or> sz < 12 + unat (extract_unsigned_integer (take 4 (drop 8 c)) bo)
         then None
         else Some (c_string (chars_of_bytes (drop 12 c)),
                    extract_unsigned_integer (take 4 (drop 4 c)) bo))
      else if (ucast (extract_unsigned_integer (take 4 c) bo) :: 32 word) = 4 then
        (if sz < 16 \<or> sz < 16 + unat (extract_unsigned_integer (take 4 (drop 12 c)) bo)
         then None
         else Some (c_string (chars_of_bytes (drop 16 c)),
                    extract_unsigned_integer (take 8 (drop 4 c)) bo))
      else None)"

text \<open>The element of the library list for a module: its name and its segment address.\<close>

definition library_element :: "module_env \<Rightarrow> gdbarch \<Rightarrow> string \<times> CORE_ADDR \<Rightarrow> string" where
  "library_element env g m =
     ''<library name='' @ [CHR 0x22] @ xml_escape_text (fst m) @ [CHR 0x22]
     @ ''><segment address='' @ [CHR 0x22]
     @ paddress g (snd m + text_offset_of env (fst m)) @ [CHR 0x22] @ ''/></library>''"

definition library_list_document ::
  "module_env \<Rightarrow> gdbarch \<Rightarrow> (string \<times> CORE_ADDR) list \<Rightarrow> string" where
  "library_list_document env g ms =
     ''<library-list>'' @ [CHR 0x0A] @ concat (map (library_element env g) ms)
     @ ''</library-list>'' @ [CHR 0x0A]"

text \<open>
  A legacy section rejected as malformed, after the four reasons of the claim: the section
  is smaller than 4 bytes, the type tag is neither \<open>MODULE32\<close> nor \<open>MODULE64\<close>, the
  section is smaller than the fixed name offset of its tag, or the declared name length plus
  the header exceeds the size of the section.
\<close>

definition legacy_rejected :: "gdbarch \<Rightarrow> asection \<Rightarrow> bool" where
  "legacy_rejected g sect =
     (let sz = bfd_section_size sect; bo = gdbarch_byte_order g; c = sect_contents sect;
          tag = (ucast (extract_unsigned_integer (take 4 c) bo) :: 32 word)
      in startswith (sect_name sect) ''.module'' \<and> sect_readable sect
         \<and> (sz < 4
            \<or> (tag \<noteq> NOTE_INFO_MODULE \<and> tag \<noteq> NOTE_INFO_MODULE64)
            \<or> (tag = NOTE_INFO_MODULE \<and> sz < 12)
            \<or> (tag = NOTE_INFO_MODULE64 \<and> sz < 16)
            \<or> (tag = NOTE_INFO_MODULE \<and> 12 \<le> sz
                \<and> sz < 12 + unat (extract_unsigned_integer (take 4 (drop 8 c)) bo))
            \<or> (tag = NOTE_INFO_MODULE64 \<and> 16 \<le> sz
                \<and> sz < 16 + unat (extract_unsigned_integer (take 4 (drop 12 c)) bo))))"

text \<open>
  The dumps of the examples. The environment finds no library file, so every text offset is
  the default \<open>0x1000\<close>. The sections \<^verbatim>\<open>.coremodule/1000\<close> and \<^verbatim>\<open>.coremodule/2000\<close> hold
  \<open>app.exe\<close> and \<open>lib.dll\<close> in UTF-16; the legacy section \<^verbatim>\<open>.module0\<close> has the tag
  \<open>MODULE32\<close> and declares a name of 100 bytes in a section of 16 bytes.
\<close>

definition example_env :: module_env where
  "example_env = \<lparr>text_offset_of = (\<lambda>so_name. 0x1000), indeterminate_base_addr = 0\<rparr>"

definition example_app_section :: asection where
  "example_app_section =
     \<lparr>sect_name = ''.coremodule/1000'', sect_vma = 0,
      sect_contents = [0x61, 0, 0x70, 0, 0x70, 0, 0x2E, 0, 0x65, 0, 0x78, 0, 0x65, 0],
      sect_readable = True\<rparr>"

definition example_lib_section :: asection where
  "example_lib_section =
     \<lparr>sect_name = ''.coremodule/2000'', sect_vma = 0,
      sect_contents = [0x6C, 0, 0x69, 0, 0x62, 0, 0x2E, 0, 0x64, 0, 0x6C, 0, 0x6C, 0],
      sect_readable = True\<rparr>"

definition example_bad_module_section :: asection where
  "example_bad_module_section =
     \<lparr>sect_name = ''.module0'', sect_vma = 0,
      sect_contents = [3, 0, 0, 0,  0, 0, 0x40, 0,  100, 0, 0, 0,  0x61, 0x2E, 0x65, 0],
      sect_readable = True\<rparr>"

text \<open>
  Two more sections. The payload of \<^verbatim>\<open>.coremodule/3000\<close> is the letter a, the code unit 0
  and the letter b. The legacy section \<^verbatim>\<open>.module1\<close> has the tag \<open>MODULE32\<close>, the base
  address \<open>0x400000\<close> and declares a name of 3 bytes, and the bytes from its name offset
  to its end are \<open>a.eXYZ\<close>.
\<close>

definition example_nul_section :: asection where
  "example_nul_section =
     \<lparr>sect_name = ''.coremodule/3000'', sect_vma = 0,
      sect_contents = [0x61, 0, 0, 0, 0x62, 0],
      sect_readable = True\<rparr>"

definition example_long_section :: asection where
  "example_long_section =
     \<lparr>sect_name = ''.module1'', sect_vma = 0,
      sect_contents = [3, 0, 0, 0,  0, 0, 0x40, 0,  3, 0, 0, 0,
                       0x61, 0x2E, 0x65, 0x58, 0x59, 0x5A],
      sect_readable = True\<rparr>"

text \<open>
  Two well-formed legacy sections. \<^verbatim>\<open>.module0\<close> has the tag \<open>MODULE32\<close>, the base address
  \<open>0x400000\<close> and a name of 4 bytes, \<open>a.e\<close> and its NUL. \<^verbatim>\<open>.module2\<close> has the tag
  \<open>MODULE64\<close>, the base address \<open>0x400000\<close> and a name of 8 bytes, \<open>lib.dll\<close> and its
  NUL.
\<close>

definition example_module32_section :: asection where
  "example_module32_section =
     \<lparr>sect_name = ''.module0'', sect_vma = 0,
      sect_contents = [3, 0, 0, 0,  0, 0, 0x40, 0,  4, 0, 0, 0,  0x61, 0x2E, 0x65, 0],
      sect_readable = True\<rparr>"

definition example_module64_section :: asection where
  "example_module64_section =
     \<lparr>sect_name = ''.module2'', sect_vma = 0,
      sect_contents = [4, 0, 0, 0,  0, 0, 0x40, 0, 0, 0, 0, 0,  8, 0, 0, 0,
                       0x6C, 0x69, 0x62, 0x2E, 0x64, 0x6C, 0x6C, 0],
      sect_readable = True\<rparr>"

text \<open>
  The document of a dump whose module list holds the one library \<open>lib.dll\<close>, with the
  text of its segment address.
\<close>

definition example_document :: "string \<Rightarrow> string" where
  "example_document address_text =
     ''<library-list>'' @ [CHR 0x0A]
     @ ''<library name='' @ [CHR 0x22] @ ''lib.dll'' @ [CHR 0x22]
     @ ''><segment address='' @ [CHR 0x22] @ address_text @ [CHR 0x22] @ ''/></library>''
     @ ''</library-list>'' @ [CHR 0x0A]"

section \<open>Theorems\<close>

subsection \<open>Signals\<close>

text \<open>
  C9. A target signal value maps to \<open>GDB_SIGNAL_UNKNOWN\<close> exactly when it is none of the
  case labels of the \<^verbatim>\<open>switch\<close>. The labels are written with seven hexadecimal digits,
  so the eight-digit exception code \<open>0xC0000005\<close> (\<open>ACCESS_VIOLATION\<close> in the table
  \<open>exception_values\<close>) is not a label and maps to \<open>GDB_SIGNAL_UNKNOWN\<close>, while the
  seven-digit label \<open>0xC000005\<close> maps to \<open>GDB_SIGNAL_SEGV\<close>.
\<close>

theorem signal_from_target_unknown:
  "(windows_gdb_signal_from_target s = GDB_SIGNAL_UNKNOWN) = (s \<notin> set signal_case_labels)
   \<and> (0xC0000005, ''ACCESS_VIOLATION'') \<in> set exception_values
   \<and> windows_gdb_signal_from_target 0xC0000005 = GDB_SIGNAL_UNKNOWN
   \<and> windows_gdb_signal_from_target 0xC000005 = GDB_SIGNAL_SEGV"
proof -
  have a: "(windows_gdb_signal_from_target s = GDB_SIGNAL_UNKNOWN)
            = (s \<notin> set signal_case_labels)"
    by (simp add: windows_gdb_signal_from_target_def signal_case_labels_def Let_def)
  have b: "(0xC0000005, ''ACCESS_VIOLATION'') \<in> set exception_values"
    by (simp add: exception_values_def)
  have c: "windows_gdb_signal_from_target 0xC0000005 = GDB_SIGNAL_UNKNOWN"
    by (simp add: windows_gdb_signal_from_target_def)
  have d: "windows_gdb_signal_from_target 0xC000005 = GDB_SIGNAL_SEGV"
    by (simp add: windows_gdb_signal_from_target_def)
  from a b c d show ?thesis by blast
qed

subsection \<open>Exception record\<close>

lemma length_rec_set:
  "length v = 4 \<Longrightarrow> 4 * i + 4 \<le> length rec \<Longrightarrow> length (rec_set rec i v) = length rec"
  by (simp add: rec_set_def)

lemma length_rec_get:
  "4 * i + 4 \<le> length rec \<Longrightarrow> length (rec_get rec i) = 4"
  by (simp add: rec_get_def)

lemma nth_rec_get:
  "k < 4 \<Longrightarrow> 4 * i + 4 \<le> length rec \<Longrightarrow> rec_get rec i ! k = rec ! (4 * i + k)"
  by (simp add: rec_get_def)

lemma nth_rec_set:
  assumes "length v = 4" and "4 * i + 4 \<le> length rec" and "j < length rec"
  shows "rec_set rec i v ! j = (if 4 * i \<le> j \<and> j < 4 * i + 4 then v ! (j - 4 * i) else rec ! j)"
  using assms by (auto simp: rec_set_def nth_append min_def)

lemma length_siginfo_compact:
  "length rec = 152 \<Longrightarrow> length (siginfo_compact r rec) = 152"
proof (induction r rec rule: siginfo_compact.induct)
  case (1 r rec)
  show ?case
  proof (cases "r < 19")
    case True
    have "length (rec_set rec (r + 1) (rec_get rec (r * 2))) = 152"
      using True "1.prems" by (simp add: length_rec_set length_rec_get)
    with "1.IH" [OF True] True show ?thesis
      by (subst siginfo_compact.simps) simp
  next
    case False
    with "1.prems" show ?thesis by (subst siginfo_compact.simps) simp
  qed
qed

lemma nth_siginfo_compact:
  "2 \<le> r \<Longrightarrow> length rec = 152 \<Longrightarrow> j < 80 \<Longrightarrow>
   siginfo_compact r rec ! j =
     (if j < 4 * (r + 1) then rec ! j else rec ! (8 * (j div 4 - 1) + j mod 4))"
proof (induction r rec rule: siginfo_compact.induct)
  case (1 r rec)
  show ?case
  proof (cases "r < 19")
    case False
    with "1.prems" show ?thesis by (subst siginfo_compact.simps) simp
  next
    case True
    define rec' where "rec' = rec_set rec (r + 1) (rec_get rec (r * 2))"
    have lg: "length (rec_get rec (r * 2)) = 4"
      using True "1.prems" by (simp add: length_rec_get)
    have len': "length rec' = 152"
      using True "1.prems" lg by (simp add: rec'_def length_rec_set)
    have ih: "siginfo_compact (r + 1) rec' ! j =
        (if j < 4 * (r + 1 + 1) then rec' ! j else rec' ! (8 * (j div 4 - 1) + j mod 4))"
      using "1.IH" [OF True] "1.prems" len' by (simp add: rec'_def)
    have step: "siginfo_compact r rec = siginfo_compact (r + 1) rec'"
      using True by (subst siginfo_compact.simps) (simp add: rec'_def)
    have upd: "\<And>k. k < 152 \<Longrightarrow> rec' ! k =
        (if 4 * (r + 1) \<le> k \<and> k < 4 * (r + 1) + 4 then rec ! (8 * r + (k - 4 * (r + 1)))
         else rec ! k)"
    proof -
      fix k :: nat
      assume k: "k < 152"
      have "rec' ! k = (if 4 * (r + 1) \<le> k \<and> k < 4 * (r + 1) + 4
                        then rec_get rec (r * 2) ! (k - 4 * (r + 1)) else rec ! k)"
        unfolding rec'_def using lg True "1.prems" k by (subst nth_rec_set) auto
      moreover have "4 * (r + 1) \<le> k \<and> k < 4 * (r + 1) + 4 \<Longrightarrow>
          rec_get rec (r * 2) ! (k - 4 * (r + 1)) = rec ! (8 * r + (k - 4 * (r + 1)))"
        using True "1.prems" by (subst nth_rec_get) auto
      ultimately show "rec' ! k =
        (if 4 * (r + 1) \<le> k \<and> k < 4 * (r + 1) + 4 then rec ! (8 * r + (k - 4 * (r + 1)))
         else rec ! k)"
        by simp
    qed
    consider (lo) "j < 4 * (r + 1)" | (mid) "4 * (r + 1) \<le> j" "j < 4 * (r + 2)"
      | (hi) "4 * (r + 2) \<le> j"
      by linarith
    then show ?thesis
    proof cases
      case lo
      then show ?thesis using step ih upd [of j] "1.prems" by simp
    next
      case mid
      then have d: "j div 4 = r + 1" by simp
      have m: "j mod 4 = j - 4 * (r + 1)"
        using mid d by (metis minus_mult_div_eq_mod)
      show ?thesis using step ih upd [of j] "1.prems" mid d m by simp
    next
      case hi
      then have d: "r + 2 \<le> j div 4" by simp
      have d19: "j div 4 \<le> 19" using "1.prems" by simp
      have m: "j mod 4 < 4" by simp
      define q where "q = j div 4 - 1"
      have q1: "r + 1 \<le> q" and q2: "q \<le> 18"
        using d d19 by (simp_all add: q_def)
      define k where "k = 8 * (j div 4 - 1) + j mod 4"
      have kq: "k = 8 * q + j mod 4" by (simp add: k_def q_def)
      have k1: "k < 152" using q2 m unfolding kq by linarith
      have "4 * (r + 1) + 4 \<le> 8 * q" using q1 by simp
      then have "4 * (r + 1) + 4 \<le> 8 * q + j mod 4" by (rule trans_le_add1)
      then have k2: "\<not> (4 * (r + 1) \<le> k \<and> k < 4 * (r + 1) + 4)"
        unfolding kq by simp
      have "rec' ! k = rec ! k" using upd [of k] k1 k2 by auto
      then show ?thesis using step ih hi by (simp add: k_def)
    qed
  qed
qed

text \<open>
  C2. On a 32-bit target (\<open>ptr_bit = 32\<close>) the exception-record read fails for every
  offset above 80; it succeeds exactly when a readable \<^verbatim>\<open>.coreexception\<close> section of
  exactly 152 bytes is stored and the offset is at most 80; and when it succeeds it returns
  \<open>min len (80 - offset)\<close> bytes, byte \<open>i\<close> of which is byte \<open>offset + i\<close> of the logical
  32-bit view: the stored code and flags, then for each 4-byte slot the low 32 bits of the
  stored 8-byte slot, so the slots are compacted from 8-byte to 4-byte stride.
\<close>

theorem xfer_siginfo_32:
  "(80 < offset \<longrightarrow> windows_core_xfer_siginfo 32 core_bfd offset len = None)
   \<and> (windows_core_xfer_siginfo 32 core_bfd offset len \<noteq> None
        \<longleftrightarrow> (\<exists>section. bfd_get_section_by_name core_bfd ''.coreexception'' = Some section
              \<and> sect_readable section \<and> bfd_section_size section = 152 \<and> offset \<le> 80))
   \<and> (windows_core_xfer_siginfo 32 core_bfd offset len = Some bs \<longrightarrow>
        (\<exists>section. bfd_get_section_by_name core_bfd ''.coreexception'' = Some section
           \<and> bfd_section_size section = 152
           \<and> length bs = min len (80 - offset)
           \<and> (\<forall>i<length bs. bs ! i = low32_view (sect_contents section) (offset + i))))"
proof (intro conjI impI)
  assume "80 < offset"
  then show "windows_core_xfer_siginfo 32 core_bfd offset len = None"
    by (simp add: windows_core_xfer_siginfo_def EXC_SIZE_32_def split: option.splits)
next
  show "windows_core_xfer_siginfo 32 core_bfd offset len \<noteq> None
        \<longleftrightarrow> (\<exists>section. bfd_get_section_by_name core_bfd ''.coreexception'' = Some section
              \<and> sect_readable section \<and> bfd_section_size section = 152 \<and> offset \<le> 80)"
    by (auto simp: windows_core_xfer_siginfo_def EXC_SIZE_32_def EXC_SIZE_64_def Let_def
          bfd_get_section_contents_def split: option.splits if_splits)
next
  assume ok: "windows_core_xfer_siginfo 32 core_bfd offset len = Some bs"
  then obtain sect where
    sec: "bfd_get_section_by_name core_bfd ''.coreexception'' = Some sect"
    by (auto simp: windows_core_xfer_siginfo_def split: option.splits)
  from ok sec have off: "offset \<le> 80" and sz: "bfd_section_size sect = 152"
    and rd: "sect_readable sect"
    by (auto simp: windows_core_xfer_siginfo_def EXC_SIZE_32_def EXC_SIZE_64_def
          bfd_get_section_contents_def split: option.splits if_splits)
  define stored where "stored = sect_contents sect"
  have ls: "length stored = 152" using sz by (simp add: stored_def bfd_section_size_def)
  have bs: "bs = take (min len (80 - offset)) (drop offset (siginfo_compact 2 stored))"
    using ok sec off sz rd ls
    by (auto simp: windows_core_xfer_siginfo_def EXC_SIZE_32_def EXC_SIZE_64_def Let_def
          bfd_get_section_contents_def stored_def min_def split: option.splits if_splits)
  have lc: "length (siginfo_compact 2 stored) = 152"
    using ls by (rule length_siginfo_compact)
  have lb: "length bs = min len (80 - offset)"
    using off lc by (simp add: bs)
  have nth: "\<forall>i<length bs. bs ! i = low32_view stored (offset + i)"
  proof (intro allI impI)
    fix i assume i: "i < length bs"
    then have j: "offset + i < 80" using lb off by arith
    have "offset \<le> length (siginfo_compact 2 stored)" using j lc by simp
    then have "drop offset (siginfo_compact 2 stored) ! i
                 = siginfo_compact 2 stored ! (offset + i)"
      by (rule nth_drop)
    then have "bs ! i = siginfo_compact 2 stored ! (offset + i)"
      using i lb by (simp add: bs)
    also have "\<dots> = (if offset + i < 4 * (2 + 1) then stored ! (offset + i)
                     else stored ! (8 * ((offset + i) div 4 - 1) + (offset + i) mod 4))"
      using ls j by (intro nth_siginfo_compact) simp_all
    also have "\<dots> = low32_view stored (offset + i)"
    proof (cases "offset + i < 8")
      case True
      then show ?thesis by (simp add: low32_view_def)
    next
      case False
      show ?thesis
      proof (cases "offset + i < 12")
        case True
        with False have d: "(offset + i) div 4 = 2" by simp
        have "(offset + i) mod 4 = offset + i - 4 * 2"
          using d by (metis minus_mult_div_eq_mod)
        with True False d show ?thesis by (simp add: low32_view_def)
      next
        case False
        then show ?thesis by (simp add: low32_view_def)
      qed
    qed
    finally show "bs ! i = low32_view stored (offset + i)" .
  qed
  show "\<exists>section. bfd_get_section_by_name core_bfd ''.coreexception'' = Some section
           \<and> bfd_section_size section = 152
           \<and> length bs = min len (80 - offset)
           \<and> (\<forall>i<length bs. bs ! i = low32_view (sect_contents section) (offset + i))"
    using sec sz lb nth by (auto simp: stored_def)
qed

theorem xfer_siginfo_32_witness:
  "windows_core_xfer_siginfo 32 [example_exception_section] 81 4 = None
   \<and> windows_core_xfer_siginfo 32 [example_exception_section] 8 8
       = Some [8, 9, 10, 11, 16, 17, 18, 19]
   \<and> (\<exists>section. bfd_get_section_by_name [example_exception_section] ''.coreexception''
          = Some section \<and> bfd_section_size section = 152)"
proof -
  have r: "windows_core_xfer_siginfo 32 [example_exception_section] 8 8
             = Some [8, 9, 10, 11, 16, 17, 18, 19]"
    by code_simp
  have h: "(80::nat) < 81" by simp
  have a: "windows_core_xfer_siginfo 32 [example_exception_section] 81 4 = None"
    using xfer_siginfo_32 [where offset = 81 and core_bfd = "[example_exception_section]"
        and len = 4] h by blast
  have b: "\<exists>section. bfd_get_section_by_name [example_exception_section] ''.coreexception''
          = Some section \<and> bfd_section_size section = 152"
    using xfer_siginfo_32 [where offset = 8 and core_bfd = "[example_exception_section]"
        and len = 8 and bs = "[8, 9, 10, 11, 16, 17, 18, 19]"] r by blast
  from a r b show ?thesis by blast
qed

subsection \<open>Unicode strings in target memory\<close>

lemma target_read_memory_numeral:
  "target_read_memory mem addr (numeral n) =
     (case mem addr of
        None \<Rightarrow> None
      | Some b \<Rightarrow>
          (case target_read_memory mem (addr + 1) (pred_numeral n) of
             None \<Rightarrow> None
           | Some bs \<Rightarrow> Some (b # bs)))"
  by (simp add: numeral_eq_Suc)

lemma char_of_examples:
  "char_of (0::nat) = NUL"
  "char_of (0x61::nat) = CHR ''a''"
  "char_of (0x62::nat) = CHR ''b''"
  "char_of (0x20::nat) = CHR '' ''"
  unfolding NUL_def by code_simp+

lemma length_target_read_memory:
  "target_read_memory mem addr len = Some bs \<Longrightarrow> length bs = len"
  by (induction len arbitrary: addr bs) (auto split: option.splits)

lemma c_string_append_NUL: "c_string (cs @ [NUL]) = c_string cs"
  by (induction cs) (simp_all add: c_string_def)

lemma c_string_no_NUL: "NUL \<notin> set cs \<Longrightarrow> c_string cs = cs"
  by (auto simp: c_string_def takeWhile_eq_all_conv)

lemma NUL_notin_c_string: "NUL \<notin> set (c_string cs)"
  by (auto simp: c_string_def dest: set_takeWhileD)

text \<open>
  C3 (amended). \<open>read_unicode_string\<close> returns \<open>None\<close> whenever the 2-byte length read
  fails, the length is 0, the pointer-width read of the buffer address fails, or the read
  of \<open>length\<close> bytes from the buffer fails. It returns a string only when all three reads
  succeed and the length is positive, and that string is the host re-encoding of exactly
  \<open>length\<close> bytes read from the buffer address, up to its first NUL character: the whole
  re-encoding when it contains no NUL.
\<close>

theorem read_unicode_string_all_or_nothing:
  "(target_read_memory mem addr 2 = None
      \<longrightarrow> read_unicode_string g mem addr bo pb = None)
   \<and> (target_read_memory mem addr 2 = Some lbuf
        \<and> (ucast (extract_unsigned_integer lbuf bo) :: 32 word) = 0
      \<longrightarrow> read_unicode_string g mem addr bo pb = None)
   \<and> (target_read_memory mem (addr + of_nat pb) pb = None
      \<longrightarrow> read_unicode_string g mem addr bo pb = None)
   \<and> (target_read_memory mem addr 2 = Some lbuf
        \<and> target_read_memory mem (addr + of_nat pb) pb = Some pbuf
        \<and> target_read_memory mem (extract_unsigned_integer pbuf bo)
             (unat (ucast (extract_unsigned_integer lbuf bo) :: 32 word)) = None
      \<longrightarrow> read_unicode_string g mem addr bo pb = None)
   \<and> (read_unicode_string g mem addr bo pb = Some s
      \<longrightarrow> (\<exists>lbuf pbuf str_buf.
            target_read_memory mem addr 2 = Some lbuf
            \<and> 0 < (ucast (extract_unsigned_integer lbuf bo) :: 32 word)
            \<and> target_read_memory mem (addr + of_nat pb) pb = Some pbuf
            \<and> target_read_memory mem (extract_unsigned_integer pbuf bo)
                 (unat (ucast (extract_unsigned_integer lbuf bo) :: 32 word)) = Some str_buf
            \<and> length str_buf = unat (ucast (extract_unsigned_integer lbuf bo) :: 32 word)
            \<and> s = c_string (wide_to_host g str_buf)
            \<and> (NUL \<notin> set (wide_to_host g str_buf) \<longrightarrow> s = wide_to_host g str_buf)))"
proof (intro conjI impI)
  assume "target_read_memory mem addr 2 = None"
  then show "read_unicode_string g mem addr bo pb = None"
    by (simp add: read_unicode_string_def)
next
  assume "target_read_memory mem addr 2 = Some lbuf
        \<and> (ucast (extract_unsigned_integer lbuf bo) :: 32 word) = 0"
  then show "read_unicode_string g mem addr bo pb = None"
    by (simp add: read_unicode_string_def)
next
  assume "target_read_memory mem (addr + of_nat pb) pb = None"
  then show "read_unicode_string g mem addr bo pb = None"
    by (simp add: read_unicode_string_def Let_def split: option.splits)
next
  assume "target_read_memory mem addr 2 = Some lbuf
        \<and> target_read_memory mem (addr + of_nat pb) pb = Some pbuf
        \<and> target_read_memory mem (extract_unsigned_integer pbuf bo)
             (unat (ucast (extract_unsigned_integer lbuf bo) :: 32 word)) = None"
  then show "read_unicode_string g mem addr bo pb = None"
    by (simp add: read_unicode_string_def Let_def)
next
  assume ok: "read_unicode_string g mem addr bo pb = Some s"
  then obtain lbuf where l: "target_read_memory mem addr 2 = Some lbuf"
    by (auto simp: read_unicode_string_def split: option.splits)
  define n where "n = (ucast (extract_unsigned_integer lbuf bo) :: 32 word)"
  from ok l have pos: "0 < n"
    by (auto simp: read_unicode_string_def Let_def n_def split: option.splits if_splits)
  from ok l pos obtain pbuf where p: "target_read_memory mem (addr + of_nat pb) pb = Some pbuf"
    by (auto simp: read_unicode_string_def Let_def n_def split: option.splits if_splits)
  from ok l pos p obtain str_buf where
    b: "target_read_memory mem (extract_unsigned_integer pbuf bo) (unat n) = Some str_buf"
    and s: "s = c_string (wide_to_host g str_buf @ [NUL])"
    by (auto simp: read_unicode_string_def Let_def n_def split: option.splits if_splits)
  have len: "length str_buf = unat n"
    using b by (rule length_target_read_memory)
  have s': "s = c_string (wide_to_host g str_buf)"
    using s by (simp add: c_string_append_NUL)
  have full: "NUL \<notin> set (wide_to_host g str_buf) \<longrightarrow> s = wide_to_host g str_buf"
    using s' by (simp add: c_string_no_NUL)
  show "\<exists>lbuf pbuf str_buf.
            target_read_memory mem addr 2 = Some lbuf
            \<and> 0 < (ucast (extract_unsigned_integer lbuf bo) :: 32 word)
            \<and> target_read_memory mem (addr + of_nat pb) pb = Some pbuf
            \<and> target_read_memory mem (extract_unsigned_integer pbuf bo)
                 (unat (ucast (extract_unsigned_integer lbuf bo) :: 32 word)) = Some str_buf
            \<and> length str_buf = unat (ucast (extract_unsigned_integer lbuf bo) :: 32 word)
            \<and> s = c_string (wide_to_host g str_buf)
            \<and> (NUL \<notin> set (wide_to_host g str_buf) \<longrightarrow> s = wide_to_host g str_buf)"
    using l pos p b len s' full unfolding n_def by blast
qed

lemma example_read_length: "target_read_memory example_memory 0x9070 2 = Some [6, 0]"
  by (simp add: target_read_memory_numeral example_memory_def)

lemma example_read_pointer:
  "target_read_memory example_memory 0x9078 8 = Some [0x00, 0xA0, 0, 0, 0, 0, 0, 0]"
  by (simp add: target_read_memory_numeral example_memory_def)

lemma example_read_text:
  "target_read_memory example_memory 0xA000 6 = Some [0x61, 0, 0x20, 0, 0x62, 0]"
  by (simp add: target_read_memory_numeral example_memory_def)

lemma example_read_unicode_string:
  "read_unicode_string example_gdbarch example_memory 0x9070 BFD_ENDIAN_LITTLE 8 = Some ''a b''"
  by (simp add: read_unicode_string_def example_read_length example_read_pointer
        example_read_text extract_unsigned_integer_def example_gdbarch_def c_string_def
        char_of_examples) (simp add: NUL_def)

theorem read_unicode_string_all_or_nothing_witness:
  "read_unicode_string example_gdbarch example_memory 0x9070 BFD_ENDIAN_LITTLE 8 = Some ''a b''
   \<and> (\<exists>lbuf pbuf str_buf.
         target_read_memory example_memory 0x9070 2 = Some lbuf
         \<and> target_read_memory example_memory (0x9070 + of_nat 8) 8 = Some pbuf
         \<and> target_read_memory example_memory (extract_unsigned_integer pbuf BFD_ENDIAN_LITTLE)
              (unat (ucast (extract_unsigned_integer lbuf BFD_ENDIAN_LITTLE) :: 32 word))
            = Some str_buf
         \<and> ''a b'' = c_string (wide_to_host example_gdbarch str_buf))
   \<and> target_read_memory example_memory 0x9038 2 = None
   \<and> read_unicode_string example_gdbarch example_memory 0x9038 BFD_ENDIAN_LITTLE 8 = None"
proof -
  note main = read_unicode_string_all_or_nothing
  have a: "read_unicode_string example_gdbarch example_memory 0x9070 BFD_ENDIAN_LITTLE 8
             = Some ''a b''"
    by (rule example_read_unicode_string)
  have b: "\<exists>lbuf pbuf str_buf.
         target_read_memory example_memory 0x9070 2 = Some lbuf
         \<and> target_read_memory example_memory (0x9070 + of_nat 8) 8 = Some pbuf
         \<and> target_read_memory example_memory (extract_unsigned_integer pbuf BFD_ENDIAN_LITTLE)
              (unat (ucast (extract_unsigned_integer lbuf BFD_ENDIAN_LITTLE) :: 32 word))
            = Some str_buf
         \<and> ''a b'' = c_string (wide_to_host example_gdbarch str_buf)"
    using main [where g = example_gdbarch and mem = example_memory and addr = "0x9070"
        and bo = BFD_ENDIAN_LITTLE and pb = 8 and s = "''a b''"] a
    by blast
  have c: "target_read_memory example_memory 0x9038 2 = None"
    by (simp add: target_read_memory_numeral example_memory_def)
  have d: "read_unicode_string example_gdbarch example_memory 0x9038 BFD_ENDIAN_LITTLE 8 = None"
    using main [where g = example_gdbarch and mem = example_memory and addr = "0x9038"
        and bo = BFD_ENDIAN_LITTLE and pb = 8] c
    by blast
  from a b c d show ?thesis by blast
qed

text \<open>
  The claim as stated fails where the re-encoded text contains a NUL: the unicode string at
  \<open>0xB000\<close> has length 4 and all three reads succeed, the re-encoding of its four bytes is
  the letter a followed by NUL, and the string returned is the letter a alone.
\<close>

lemma example_truncated_length: "target_read_memory example_memory 0xB000 2 = Some [4, 0]"
  by (simp add: target_read_memory_numeral example_memory_def)

lemma example_truncated_pointer:
  "target_read_memory example_memory 0xB008 8 = Some [0x00, 0xB1, 0, 0, 0, 0, 0, 0]"
  by (simp add: target_read_memory_numeral example_memory_def)

lemma example_truncated_text:
  "target_read_memory example_memory 0xB100 4 = Some [0x61, 0, 0, 0]"
  by (simp add: target_read_memory_numeral example_memory_def)

theorem read_unicode_string_truncated_counterexample:
  "target_read_memory example_memory 0xB000 2 = Some [4, 0]
   \<and> target_read_memory example_memory 0xB008 8 = Some [0x00, 0xB1, 0, 0, 0, 0, 0, 0]
   \<and> target_read_memory example_memory 0xB100 4 = Some [0x61, 0, 0, 0]
   \<and> wide_to_host example_gdbarch [0x61, 0, 0, 0] = [CHR ''a'', NUL]
   \<and> read_unicode_string example_gdbarch example_memory 0xB000 BFD_ENDIAN_LITTLE 8 = Some ''a''
   \<and> read_unicode_string example_gdbarch example_memory 0xB000 BFD_ENDIAN_LITTLE 8
       \<noteq> Some (wide_to_host example_gdbarch [0x61, 0, 0, 0])"
  by (simp add: read_unicode_string_def example_truncated_length example_truncated_pointer
        example_truncated_text extract_unsigned_integer_def example_gdbarch_def c_string_def
        char_of_examples) (simp add: NUL_def)

subsection \<open>The process-info query\<close>

text \<open>
  C6 (amended). The process-info query fails with the unsupported-argument error whenever
  a non-empty argument is supplied, whatever was requested and whatever is attached; it
  fails with the no-current-process error when no non-empty argument is supplied and
  neither an executing process nor a dump is attached. In either failure the result is the
  error alone, so no field output is produced; otherwise the query produces output.
\<close>

theorem info_proc_preconditions:
  "((\<exists>a. args = Some a \<and> a \<noteq> [])
      \<longrightarrow> windows_info_proc g t args what = Inl Only_supported_for_the_current_process)
   \<and> (\<not> (\<exists>a. args = Some a \<and> a \<noteq> []) \<and> \<not> has_execution t \<and> \<not> has_core t
      \<longrightarrow> windows_info_proc g t args what = Inl No_current_process)
   \<and> ((\<exists>a. args = Some a \<and> a \<noteq> []) \<or> (\<not> has_execution t \<and> \<not> has_core t)
      \<longrightarrow> (\<forall>out. windows_info_proc g t args what \<noteq> Inr out))
   \<and> (\<not> (\<exists>a. args = Some a \<and> a \<noteq> []) \<and> (has_execution t \<or> has_core t)
      \<longrightarrow> (\<exists>out. windows_info_proc g t args what = Inr out))"
  by (cases args) (auto simp: windows_info_proc_def Let_def split: prod.splits)

theorem info_proc_preconditions_witness:
  "windows_info_proc example_gdbarch example_target (Some ''1234'') IP_ALL
     = Inl Only_supported_for_the_current_process
   \<and> windows_info_proc example_gdbarch (example_target\<lparr>has_execution := False\<rparr>) None IP_ALL
     = Inl No_current_process
   \<and> windows_info_proc example_gdbarch (example_target\<lparr>has_execution := False\<rparr>) (Some '''')
        IP_CWD = Inl No_current_process
   \<and> (\<exists>out. windows_info_proc example_gdbarch example_target None IP_ALL = Inr out)"
proof -
  note main = info_proc_preconditions
  have a: "\<exists>a. Some ''1234'' = Some a \<and> a \<noteq> []" by simp
  have b: "\<not> (\<exists>a. (None :: string option) = Some a \<and> a \<noteq> [])" by simp
  have b': "\<not> (\<exists>a. Some '''' = Some a \<and> a \<noteq> [])" by simp
  have c: "\<not> has_execution (example_target\<lparr>has_execution := False\<rparr>)
           \<and> \<not> has_core (example_target\<lparr>has_execution := False\<rparr>)"
    by (simp add: example_target_def)
  have d: "has_execution example_target \<or> has_core example_target"
    by (simp add: example_target_def)
  show ?thesis
    using main [where args = "Some ''1234''" and g = example_gdbarch and t = example_target
        and what = IP_ALL]
      main [where args = None and g = example_gdbarch
        and t = "example_target\<lparr>has_execution := False\<rparr>" and what = IP_ALL]
      main [where args = "Some ''''" and g = example_gdbarch
        and t = "example_target\<lparr>has_execution := False\<rparr>" and what = IP_CWD]
      main [where args = None and g = example_gdbarch and t = example_target
        and what = IP_ALL]
      a b b' c d
    by blast
qed

text \<open>
  The claim as stated fails where both conditions hold: with a non-empty argument and
  nothing attached the argument check comes first, and the error is not the
  no-current-process error.
\<close>

theorem info_proc_no_process_counterexample:
  "\<not> has_execution (example_target\<lparr>has_execution := False\<rparr>)
   \<and> \<not> has_core (example_target\<lparr>has_execution := False\<rparr>)
   \<and> windows_info_proc example_gdbarch (example_target\<lparr>has_execution := False\<rparr>)
        (Some ''1234'') IP_ALL = Inl Only_supported_for_the_current_process
   \<and> windows_info_proc example_gdbarch (example_target\<lparr>has_execution := False\<rparr>)
        (Some ''1234'') IP_ALL \<noteq> Inl No_current_process"
  by (simp add: windows_info_proc_def example_target_def)







subsection \<open>Entry-point breakpoint\<close>

lemma entry_point_unchanged_iff:
  "entry_point_unchanged cur ep locs
     \<longleftrightarrow> (\<exists>loc \<in> set locs. loc_pspace loc = cur \<and> loc_address loc = ep)"
  by (induction locs) auto

text \<open>
  C8. If the entry point equals the address of a location of the breakpoint in the current
  program space, \<open>re_set\<close> leaves the locations as they are and makes no relocation. If no
  such location exists, it makes exactly one relocation: one call of the update, for the
  current program space and the one \<^verbatim>\<open>symtab_and_line\<close> at the entry point. In every case it
  makes at most one relocation, and when the update puts a location at the entry point,
  running \<open>re_set\<close> again changes nothing.
\<close>

theorem re_set_relocation:
  "((\<exists>loc \<in> set locs. loc_pspace loc = cur \<and> loc_address loc = ep)
      \<longrightarrow> re_set upd cur ep locs = (locs, []))
   \<and> (\<not> (\<exists>loc \<in> set locs. loc_pspace loc = cur \<and> loc_address loc = ep)
      \<longrightarrow> re_set upd cur ep locs
            = (upd cur [\<lparr>sal_pspace = cur, sal_pc = ep\<rparr>] locs,
               [(cur, [\<lparr>sal_pspace = cur, sal_pc = ep\<rparr>])]))
   \<and> length (snd (re_set upd cur ep locs)) \<le> 1
   \<and> ((\<exists>loc \<in> set (upd cur [\<lparr>sal_pspace = cur, sal_pc = ep\<rparr>] locs).
          loc_pspace loc = cur \<and> loc_address loc = ep)
      \<longrightarrow> re_set upd cur ep (fst (re_set upd cur ep locs))
            = (fst (re_set upd cur ep locs), []))"
  by (auto simp: re_set_def entry_point_unchanged_iff decode_location_spec_def Let_def)

theorem re_set_relocation_witness:
  "re_set example_update 3 0x401000
       [\<lparr>loc_pspace = 3, loc_address = 0x401000\<rparr>, \<lparr>loc_pspace = 5, loc_address = 0x500000\<rparr>]
     = ([\<lparr>loc_pspace = 3, loc_address = 0x401000\<rparr>, \<lparr>loc_pspace = 5, loc_address = 0x500000\<rparr>],
        [])
   \<and> re_set example_update 3 0x402000
       [\<lparr>loc_pspace = 3, loc_address = 0x401000\<rparr>, \<lparr>loc_pspace = 5, loc_address = 0x500000\<rparr>]
     = ([\<lparr>loc_pspace = 5, loc_address = 0x500000\<rparr>, \<lparr>loc_pspace = 3, loc_address = 0x402000\<rparr>],
        [(3, [\<lparr>sal_pspace = 3, sal_pc = 0x402000\<rparr>])])
   \<and> re_set example_update 3 0x402000
       (fst (re_set example_update 3 0x402000
         [\<lparr>loc_pspace = 3, loc_address = 0x401000\<rparr>, \<lparr>loc_pspace = 5, loc_address = 0x500000\<rparr>]))
     = ([\<lparr>loc_pspace = 5, loc_address = 0x500000\<rparr>, \<lparr>loc_pspace = 3, loc_address = 0x402000\<rparr>],
        [])"
proof -
  let ?locs = "[\<lparr>loc_pspace = 3, loc_address = 0x401000\<rparr>,
                \<lparr>loc_pspace = 5, loc_address = 0x500000 :: CORE_ADDR\<rparr>]"
  have same: "\<exists>loc \<in> set ?locs. loc_pspace loc = 3 \<and> loc_address loc = 0x401000"
    by simp
  have differs: "\<not> (\<exists>loc \<in> set ?locs. loc_pspace loc = 3 \<and> loc_address loc = 0x402000)"
    by simp
  have upd: "example_update 3 [\<lparr>sal_pspace = 3, sal_pc = 0x402000\<rparr>] ?locs
               = [\<lparr>loc_pspace = 5, loc_address = 0x500000\<rparr>,
                  \<lparr>loc_pspace = 3, loc_address = 0x402000\<rparr>]"
    by (simp add: example_update_def)
  have there: "\<exists>loc \<in> set (example_update 3 [\<lparr>sal_pspace = 3, sal_pc = 0x402000\<rparr>] ?locs).
                 loc_pspace loc = 3 \<and> loc_address loc = 0x402000"
    unfolding upd by simp
  have a: "re_set example_update 3 0x401000 ?locs = (?locs, [])"
    using re_set_relocation [where upd = example_update and cur = 3 and ep = "0x401000"
        and locs = ?locs] same by blast
  have b: "re_set example_update 3 0x402000 ?locs
             = (example_update 3 [\<lparr>sal_pspace = 3, sal_pc = 0x402000\<rparr>] ?locs,
                [(3, [\<lparr>sal_pspace = 3, sal_pc = 0x402000\<rparr>])])"
    using re_set_relocation [where upd = example_update and cur = 3 and ep = "0x402000"
        and locs = ?locs] differs by blast
  have c: "re_set example_update 3 0x402000 (fst (re_set example_update 3 0x402000 ?locs))
             = (fst (re_set example_update 3 0x402000 ?locs), [])"
    using re_set_relocation [where upd = example_update and cur = 3 and ep = "0x402000"
        and locs = ?locs] there by blast
  from a b c show ?thesis by (simp add: upd)
qed

subsection \<open>PE import directory\<close>

lemma length_cygwin_literal: "length (c_literal CYGWIN_DLL_NAME) = 12"
  by (simp add: c_literal_def CYGWIN_DLL_NAME_def)

lemma cygwin_literal_no_NUL: "0 \<notin> set (map of_char CYGWIN_DLL_NAME :: byte list)"
  by (simp add: CYGWIN_DLL_NAME_def)

lemma take_Suc_drop:
  "i < length buf \<Longrightarrow> take (Suc n) (drop i buf) = buf ! i # take n (drop (Suc i) buf)"
  by (metis Cons_nth_drop_Suc take_Suc_Cons)

lemma streq_at_exact:
  "0 \<notin> set s \<Longrightarrow> i + length s + 1 \<le> length buf \<Longrightarrow>
   streq_at buf i (s @ [0]) = Inr (take (length s + 1) (drop i buf) = s @ [0])"
proof (induction s arbitrary: i)
  case Nil
  then have "i < length buf" by simp
  then have "take (Suc 0) (drop i buf) = [buf ! i]"
    by (simp add: take_Suc_drop)
  with Nil show ?case by (simp add: read_range_def)
next
  case (Cons c cs)
  then have i: "i < length buf" and c: "c \<noteq> 0" and cs: "0 \<notin> set cs"
    and len: "Suc i + length cs + 1 \<le> length buf"
    by auto
  have one: "take (Suc 0) (drop i buf) = [buf ! i]"
    using i by (simp add: take_Suc_drop)
  have split: "take (length (c # cs) + 1) (drop i buf)
                 = buf ! i # take (length cs + 1) (drop (Suc i) buf)"
    using i by (simp add: take_Suc_drop)
  have ih: "streq_at buf (Suc i) (cs @ [0])
              = Inr (take (length cs + 1) (drop (Suc i) buf) = cs @ [0])"
    using Cons.IH [OF cs len] .
  show ?case
    using i c one ih unfolding split by (simp add: read_range_def)
qed

lemma streq_at_cygwin:
  assumes "name + 12 \<le> length buf"
  shows "streq_at buf name (c_literal CYGWIN_DLL_NAME)
           = Inr (take 12 (drop name buf) = c_literal CYGWIN_DLL_NAME)"
proof -
  let ?s = "map of_char CYGWIN_DLL_NAME :: byte list"
  have l: "length ?s + 1 = 12" by (simp add: CYGWIN_DLL_NAME_def)
  have "name + length ?s + 1 \<le> length buf" using assms l by linarith
  then have "streq_at buf name (?s @ [0]) = Inr (take (length ?s + 1) (drop name buf) = ?s @ [0])"
    by (rule streq_at_exact [OF cygwin_literal_no_NUL])
  then show ?thesis by (simp only: c_literal_def l)
qed

lemma import_walk_unfold:
  "import_walk host c va e iter =
     (if length c < iter + 20 then Inr (False, [Unexpected_end_of_idata])
      else if take 20 (drop iter c) = replicate 20 0 then Inr (False, [])
      else if entry_name_va host c iter < va \<or> e \<le> entry_name_va host c iter
        then Inr (False, [Name_outside_idata])
      else if unat (entry_name_va host c iter - va) + 12 \<le> length c
              \<and> take 12 (drop (unat (entry_name_va host c iter - va)) c)
                  = c_literal CYGWIN_DLL_NAME
        then Inr (True, [])
      else import_walk host c va e (iter + 20))"
proof (cases "length c < iter + 20")
  case True
  then show ?thesis
    by (subst import_walk.simps) (simp add: sizeof_pe_import_directory_entry_def)
next
  case False
  then have rr: "read_range c iter 20 = Inr (take 20 (drop iter c))"
    by (simp add: read_range_def)
  have nm: "take 4 (drop 12 (take 20 (drop iter c))) = take 4 (drop (iter + 12) c)"
    by (simp add: drop_take add.commute)
  show ?thesis
    using False
    by (subst import_walk.simps)
       (simp add: sizeof_pe_import_directory_entry_def rr nm entry_name_va_def Let_def
          length_cygwin_literal streq_at_cygwin)
qed

lemma import_walk_no_fault: "import_walk host c va e iter \<noteq> Inl f"
proof (induction "length c - iter" arbitrary: iter rule: less_induct)
  case less
  show ?case
  proof (cases "length c < iter + 20")
    case True
    then show ?thesis by (subst import_walk_unfold) simp
  next
    case False
    then have "length c - (iter + 20) < length c - iter" by simp
    then have "import_walk host c va e (iter + 20) \<noteq> Inl f" by (rule less)
    then show ?thesis by (subst import_walk_unfold) simp
  qed
qed

lemma import_walk_warnings:
  "import_walk host c va e iter = Inr (r, ws) \<Longrightarrow> length ws \<le> 1 \<and> (r \<longrightarrow> ws = [])"
proof (induction "length c - iter" arbitrary: iter rule: less_induct)
  case less
  show ?case
  proof (cases "length c < iter + 20")
    case True
    with less.prems show ?thesis by (subst (asm) import_walk_unfold) auto
  next
    case False
    then have m: "length c - (iter + 20) < length c - iter" by simp
    from less.prems False show ?thesis
      by (subst (asm) import_walk_unfold) (auto split: if_splits dest: less.hyps [OF m])
  qed
qed

lemma import_walk_True:
  "import_walk host c va e iter = Inr (True, ws) \<Longrightarrow>
   \<exists>off. off + 12 \<le> length c \<and> take 12 (drop off c) = c_literal CYGWIN_DLL_NAME"
proof (induction "length c - iter" arbitrary: iter rule: less_induct)
  case less
  show ?case
  proof (cases "length c < iter + 20")
    case True
    with less.prems show ?thesis by (subst (asm) import_walk_unfold) auto
  next
    case False
    then have m: "length c - (iter + 20) < length c - iter" by simp
    from less.prems False show ?thesis
      by (subst (asm) import_walk_unfold) (auto split: if_splits dest: less.hyps [OF m])
  qed
qed
lemma is_linked_no_read_outside:
  "is_linked_with_cygwin_dll host abfd \<noteq> Inl Read_outside_buffer"
  by (simp add: is_linked_with_cygwin_dll_def Let_def import_walk_no_fault
        split: option.splits)

text \<open>
  C5. The walk over the import directory never reads outside the contents of the
  \<^verbatim>\<open>.idata\<close> section, whatever the contents, the address range and the starting offset are,
  and so neither does the whole function. It stops with the one warning when fewer than 20
  bytes remain for the next entry, stops without a warning at an all-zero entry, and stops
  with the one warning when the name pointer of an entry is outside the address range of
  the section. An entry whose name is less than 12 bytes before the end of the contents is
  skipped without comparing. Otherwise the 12 bytes at the name are compared with the
  literal \<open>cygwin1.dll\<close> and its NUL, byte for byte: equal bytes end the walk with true,
  any difference moves to the next entry. A walk issues at most one warning.
\<close>

theorem import_walk_in_bounds:
  "import_walk host c va e iter \<noteq> Inl Read_outside_buffer
   \<and> is_linked_with_cygwin_dll host abfd \<noteq> Inl Read_outside_buffer
   \<and> (length c < iter + 20
        \<longrightarrow> import_walk host c va e iter = Inr (False, [Unexpected_end_of_idata]))
   \<and> (iter + 20 \<le> length c \<and> take 20 (drop iter c) = replicate 20 0
        \<longrightarrow> import_walk host c va e iter = Inr (False, []))
   \<and> (iter + 20 \<le> length c \<and> take 20 (drop iter c) \<noteq> replicate 20 0
        \<and> (entry_name_va host c iter < va \<or> e \<le> entry_name_va host c iter)
        \<longrightarrow> import_walk host c va e iter = Inr (False, [Name_outside_idata]))
   \<and> (iter + 20 \<le> length c \<and> take 20 (drop iter c) \<noteq> replicate 20 0
        \<and> va \<le> entry_name_va host c iter \<and> entry_name_va host c iter < e
        \<and> length c < unat (entry_name_va host c iter - va) + 12
        \<longrightarrow> import_walk host c va e iter = import_walk host c va e (iter + 20))
   \<and> (iter + 20 \<le> length c \<and> take 20 (drop iter c) \<noteq> replicate 20 0
        \<and> va \<le> entry_name_va host c iter \<and> entry_name_va host c iter < e
        \<and> unat (entry_name_va host c iter - va) + 12 \<le> length c
        \<longrightarrow> import_walk host c va e iter
             = (if take 12 (drop (unat (entry_name_va host c iter - va)) c)
                     = c_literal CYGWIN_DLL_NAME
                then Inr (True, [])
                else import_walk host c va e (iter + 20)))
   \<and> (import_walk host c va e iter = Inr (r, ws) \<longrightarrow> length ws \<le> 1)"
proof (intro conjI impI)
  show "import_walk host c va e iter \<noteq> Inl Read_outside_buffer"
    by (rule import_walk_no_fault)
  show "is_linked_with_cygwin_dll host abfd \<noteq> Inl Read_outside_buffer"
    by (rule is_linked_no_read_outside)
  show "import_walk host c va e iter = Inr (False, [Unexpected_end_of_idata])"
    if "length c < iter + 20"
    using that by (subst import_walk_unfold) simp
  show "import_walk host c va e iter = Inr (False, [])"
    if "iter + 20 \<le> length c \<and> take 20 (drop iter c) = replicate 20 0"
    using that by (subst import_walk_unfold) simp
  show "import_walk host c va e iter = Inr (False, [Name_outside_idata])"
    if "iter + 20 \<le> length c \<and> take 20 (drop iter c) \<noteq> replicate 20 0
        \<and> (entry_name_va host c iter < va \<or> e \<le> entry_name_va host c iter)"
    using that by (subst import_walk_unfold) auto
  show "import_walk host c va e iter = import_walk host c va e (iter + 20)"
    if "iter + 20 \<le> length c \<and> take 20 (drop iter c) \<noteq> replicate 20 0
        \<and> va \<le> entry_name_va host c iter \<and> entry_name_va host c iter < e
        \<and> length c < unat (entry_name_va host c iter - va) + 12"
    using that by (subst import_walk_unfold) auto
  show "import_walk host c va e iter
             = (if take 12 (drop (unat (entry_name_va host c iter - va)) c)
                     = c_literal CYGWIN_DLL_NAME
                then Inr (True, [])
                else import_walk host c va e (iter + 20))"
    if "iter + 20 \<le> length c \<and> take 20 (drop iter c) \<noteq> replicate 20 0
        \<and> va \<le> entry_name_va host c iter \<and> entry_name_va host c iter < e
        \<and> unat (entry_name_va host c iter - va) + 12 \<le> length c"
    using that by (subst import_walk_unfold) auto
  show "length ws \<le> 1" if "import_walk host c va e iter = Inr (r, ws)"
    using import_walk_warnings [OF that] by simp
qed
lemma example_contents_cygwin:
  "example_directory @ example_names_cygwin =
     [0x50, 0x20, 0, 0,  0, 0, 0, 0,  0, 0, 0, 0,  0x3C, 0x20, 0, 0,  0x50, 0x20, 0, 0,
      0x50, 0x20, 0, 0,  0, 0, 0, 0,  0, 0, 0, 0,  0x44, 0x20, 0, 0,  0x50, 0x20, 0, 0,
      0, 0, 0, 0,  0, 0, 0, 0,  0, 0, 0, 0,  0, 0, 0, 0,  0, 0, 0, 0,
      0x66, 0x6F, 0x6F, 0x2E, 0x64, 0x6C, 0x6C, 0,
      0x63, 0x79, 0x67, 0x77, 0x69, 0x6E, 0x31, 0x2E, 0x64, 0x6C, 0x6C, 0]"
  by (simp add: example_directory_def example_names_cygwin_def c_literal_def)

lemma example_contents_other:
  "example_directory @ example_names_other =
     [0x50, 0x20, 0, 0,  0, 0, 0, 0,  0, 0, 0, 0,  0x3C, 0x20, 0, 0,  0x50, 0x20, 0, 0,
      0x50, 0x20, 0, 0,  0, 0, 0, 0,  0, 0, 0, 0,  0x44, 0x20, 0, 0,  0x50, 0x20, 0, 0,
      0, 0, 0, 0,  0, 0, 0, 0,  0, 0, 0, 0,  0, 0, 0, 0,  0, 0, 0, 0,
      0x66, 0x6F, 0x6F, 0x2E, 0x64, 0x6C, 0x6C, 0,
      0x62, 0x61, 0x72, 0x2E, 0x64, 0x6C, 0x6C, 0, 0, 0, 0, 0]"
  by (simp add: example_directory_def example_names_other_def c_literal_def)

lemma cygwin_literal_bytes:
  "c_literal CYGWIN_DLL_NAME = [0x63, 0x79, 0x67, 0x77, 0x69, 0x6E, 0x31, 0x2E, 0x64, 0x6C, 0x6C, 0]"
  by (simp add: c_literal_def CYGWIN_DLL_NAME_def)

lemma replicate_20_bytes:
  "replicate 20 (0 :: byte) = [0, 0, 0, 0, 0, 0, 0, 0, 0, 0, 0, 0, 0, 0, 0, 0, 0, 0, 0, 0]"
  by (simp add: numeral_eq_Suc)

lemma example_walk_cygwin:
  "import_walk BFD_ENDIAN_LITTLE (example_directory @ example_names_cygwin) 0x2000 0x2050 0
     = Inr (True, [])"
  unfolding example_contents_cygwin
  by (simp add: import_walk_unfold entry_name_va_def extract_unsigned_integer_def
        cygwin_literal_bytes replicate_20_bytes)

lemma example_walk_other:
  "import_walk BFD_ENDIAN_LITTLE (example_directory @ example_names_other) 0x2000 0x2050 0
     = Inr (False, [])"
  unfolding example_contents_other
  by (simp add: import_walk_unfold entry_name_va_def extract_unsigned_integer_def
        cygwin_literal_bytes replicate_20_bytes)

theorem import_walk_in_bounds_witness:
  "import_walk BFD_ENDIAN_LITTLE (example_directory @ example_names_cygwin) 0x2000 0x2050 70
     = Inr (False, [Unexpected_end_of_idata])
   \<and> import_walk BFD_ENDIAN_LITTLE (example_directory @ example_names_cygwin) 0x2000 0x2050 40
     = Inr (False, [])
   \<and> import_walk BFD_ENDIAN_LITTLE (example_directory @ example_names_cygwin) 0x2000 0x2050 20
     = Inr (True, [])
   \<and> import_walk BFD_ENDIAN_BIG (example_directory @ example_names_cygwin) 0x2000 0x2050 0
     = Inr (False, [Name_outside_idata])
   \<and> import_walk BFD_ENDIAN_LITTLE (example_directory @ example_names_cygwin) 0x2000 0x2044 20
     = Inr (False, [Name_outside_idata])
   \<and> import_walk BFD_ENDIAN_LITTLE (example_directory @ example_names_cygwin) 0x1FFF 0x204F 20
     = import_walk BFD_ENDIAN_LITTLE (example_directory @ example_names_cygwin) 0x1FFF 0x204F 40"
proof -
  let ?c = "example_directory @ example_names_cygwin"
  note main = import_walk_in_bounds [where c = ?c]
  have len: "length ?c = 80"
    unfolding example_contents_cygwin by simp
  have e40: "take 20 (drop 40 ?c) = replicate 20 0"
    unfolding example_contents_cygwin by (simp add: replicate_20_bytes)
  have e20: "take 20 (drop 20 ?c) \<noteq> replicate 20 0"
    unfolding example_contents_cygwin by (simp add: replicate_20_bytes)
  have e0: "take 20 (drop 0 ?c) \<noteq> replicate 20 0"
    unfolding example_contents_cygwin by (simp add: replicate_20_bytes)
  have n20: "entry_name_va BFD_ENDIAN_LITTLE ?c 20 = 0x2044"
    unfolding example_contents_cygwin
    by (simp add: entry_name_va_def extract_unsigned_integer_def)
  have n0: "entry_name_va BFD_ENDIAN_BIG ?c 0 = 0x3C200000"
    unfolding example_contents_cygwin
    by (simp add: entry_name_va_def extract_unsigned_integer_def)
  have t68: "take 12 (drop 68 ?c) = c_literal CYGWIN_DLL_NAME"
    unfolding example_contents_cygwin by (simp add: cygwin_literal_bytes)
  have a: "import_walk BFD_ENDIAN_LITTLE ?c 0x2000 0x2050 70
             = Inr (False, [Unexpected_end_of_idata])"
    using main [where host = BFD_ENDIAN_LITTLE and va = "0x2000" and e = "0x2050"
        and iter = 70] len by simp
  have b: "import_walk BFD_ENDIAN_LITTLE ?c 0x2000 0x2050 40 = Inr (False, [])"
    using main [where host = BFD_ENDIAN_LITTLE and va = "0x2000" and e = "0x2050"
        and iter = 40] len e40 by simp
  have c: "import_walk BFD_ENDIAN_LITTLE ?c 0x2000 0x2050 20 = Inr (True, [])"
    using main [where host = BFD_ENDIAN_LITTLE and va = "0x2000" and e = "0x2050"
        and iter = 20] len e20 n20 t68 by simp
  have d: "import_walk BFD_ENDIAN_BIG ?c 0x2000 0x2050 0 = Inr (False, [Name_outside_idata])"
    using main [where host = BFD_ENDIAN_BIG and va = "0x2000" and e = "0x2050"
        and iter = 0] len e0 n0 by simp
  have e: "import_walk BFD_ENDIAN_LITTLE ?c 0x2000 0x2044 20
             = Inr (False, [Name_outside_idata])"
    using main [where host = BFD_ENDIAN_LITTLE and va = "0x2000" and e = "0x2044"
        and iter = 20] len e20 n20 by simp
  have f: "import_walk BFD_ENDIAN_LITTLE ?c 0x1FFF 0x204F 20
             = import_walk BFD_ENDIAN_LITTLE ?c 0x1FFF 0x204F 40"
    using main [where host = BFD_ENDIAN_LITTLE and va = "0x1FFF" and e = "0x204F"
        and iter = 20] len e20 n20 by simp
  from a b c d e f show ?thesis by blast
qed

lemma import_walk_live_match:
  "entry_live host c va e iter \<Longrightarrow> entry_names_cygwin host c va iter \<Longrightarrow>
   import_walk host c va e iter = Inr (True, [])"
  by (subst import_walk_unfold) (auto simp: entry_live_def entry_names_cygwin_def)

lemma import_walk_live_other:
  "entry_live host c va e iter \<Longrightarrow> \<not> entry_names_cygwin host c va iter \<Longrightarrow>
   import_walk host c va e iter = import_walk host c va e (iter + 20)"
  by (subst import_walk_unfold) (auto simp: entry_live_def entry_names_cygwin_def)

lemma import_walk_not_live:
  "\<not> entry_live host c va e iter \<Longrightarrow> \<exists>ws. import_walk host c va e iter = Inr (False, ws)"
  by (subst import_walk_unfold) (auto simp: entry_live_def)

lemma import_walk_True_iff:
  "import_walk host c va e iter = Inr (True, ws) \<longleftrightarrow>
     ws = []
     \<and> (\<exists>k. (\<forall>j<k. entry_live host c va e (iter + 20 * j)
                   \<and> \<not> entry_names_cygwin host c va (iter + 20 * j))
            \<and> entry_live host c va e (iter + 20 * k)
            \<and> entry_names_cygwin host c va (iter + 20 * k))"
proof (induction "length c - iter" arbitrary: iter rule: less_induct)
  case less
  let ?Q = "\<lambda>i. entry_live host c va e i \<and> \<not> entry_names_cygwin host c va i"
  let ?R = "\<lambda>i. entry_live host c va e i \<and> entry_names_cygwin host c va i"
  let ?P = "\<lambda>i k. (\<forall>j<k. ?Q (i + 20 * j)) \<and> ?R (i + 20 * k)"
  show ?case
  proof (cases "entry_live host c va e iter")
    case False
    have no: "\<not> ?P iter k" for k
    proof (cases k)
      case 0
      with False show ?thesis by simp
    next
      case (Suc k')
      show ?thesis
      proof
        assume "?P iter k"
        then have "?Q (iter + 20 * 0)" using Suc by blast
        with False show False by simp
      qed
    qed
    from import_walk_not_live [OF False] obtain ws' where
      "import_walk host c va e iter = Inr (False, ws')" by blast
    with no show ?thesis by auto
  next
    case live: True
    show ?thesis
    proof (cases "entry_names_cygwin host c va iter")
      case True
      have "?P iter 0" using live True by simp
      then have "\<exists>k. ?P iter k" by blast
      with import_walk_live_match [OF live True] show ?thesis by auto
    next
      case False
      have "iter + 20 \<le> length c"
        using live by (simp add: entry_live_def)
      then have m: "length c - (iter + 20) < length c - iter"
        by arith
      have ih: "import_walk host c va e (iter + 20) = Inr (True, ws) \<longleftrightarrow>
                  ws = [] \<and> (\<exists>k. ?P (iter + 20) k)"
        using less [OF m] .
      have shift: "(\<exists>k. ?P iter k) \<longleftrightarrow> (\<exists>k. ?P (iter + 20) k)"
      proof
        assume "\<exists>k. ?P iter k"
        then obtain k where k: "?P iter k" by blast
        have "k \<noteq> 0" using k False by (cases k) auto
        then obtain k' where k': "k = Suc k'" by (cases k) auto
        have "?Q (iter + 20 + 20 * j)" if "j < k'" for j
        proof -
          have "Suc j < k" using that k' by simp
          then have "?Q (iter + 20 * Suc j)" using k by blast
          then show ?thesis by (simp add: add.assoc)
        qed
        moreover have "?R (iter + 20 + 20 * k')"
          using k k' by (simp add: add.assoc)
        ultimately have "?P (iter + 20) k'" by blast
        then show "\<exists>k. ?P (iter + 20) k" by blast
      next
        assume "\<exists>k. ?P (iter + 20) k"
        then obtain k where k: "?P (iter + 20) k" by blast
        have "?Q (iter + 20 * j)" if "j < Suc k" for j
        proof (cases j)
          case 0
          with live False show ?thesis by simp
        next
          case (Suc j')
          then have "j' < k" using that by simp
          then have "?Q (iter + 20 + 20 * j')" using k by blast
          then show ?thesis using Suc by (simp add: add.assoc)
        qed
        moreover have "?R (iter + 20 * Suc k)"
          using k by (simp add: add.assoc)
        ultimately have "?P iter (Suc k)" by blast
        then show "\<exists>k. ?P iter k" by blast
      qed
      show ?thesis
        unfolding import_walk_live_other [OF live False] ih shift ..
    qed
  qed
qed

lemma is_linked_walk:
  assumes "bfd_get_section_by_name (pe_sections abfd) ''.idata'' = Some idata"
    and "pe_ImageBase abfd \<le> sect_vma idata"
    and "va = sect_vma idata - pe_ImageBase abfd"
    and "e = va + of_nat (bfd_section_size idata)"
    and "va \<le> pe_import_table_va abfd" and "pe_import_table_va abfd < e"
    and "sect_readable idata"
  shows "is_linked_with_cygwin_dll host abfd
           = import_walk host (sect_contents idata) va e (unat (pe_import_table_va abfd - va))"
proof -
  have a: "\<not> pe_import_table_va abfd < sect_vma idata - pe_ImageBase abfd"
    using assms by (simp add: not_less)
  have b: "\<not> sect_vma idata - pe_ImageBase abfd + of_nat (length (sect_contents idata))
               \<le> pe_import_table_va abfd"
    using assms by (simp add: not_le bfd_section_size_def)
  show ?thesis
    using assms a b
    by (simp add: is_linked_with_cygwin_dll_def Let_def bfd_get_section_contents_def
          bfd_section_size_def)
qed

lemma is_linked_assert:
  "bfd_get_section_by_name (pe_sections abfd) ''.idata'' = Some idata
     \<and> sect_vma idata < pe_ImageBase abfd
   \<Longrightarrow> is_linked_with_cygwin_dll host abfd = Inl Assertion_failed"
  by (auto simp: is_linked_with_cygwin_dll_def Let_def)

lemma is_linked_outside:
  "bfd_get_section_by_name (pe_sections abfd) ''.idata'' = Some idata
     \<and> pe_ImageBase abfd \<le> sect_vma idata
     \<and> (pe_import_table_va abfd < sect_vma idata - pe_ImageBase abfd
          \<or> sect_vma idata - pe_ImageBase abfd + of_nat (bfd_section_size idata)
              \<le> pe_import_table_va abfd)
   \<Longrightarrow> is_linked_with_cygwin_dll host abfd = Inr (False, [Import_table_outside_idata])"
  by (auto simp: is_linked_with_cygwin_dll_def Let_def)

lemma is_linked_unreadable:
  assumes "bfd_get_section_by_name (pe_sections abfd) ''.idata'' = Some idata"
    and "pe_ImageBase abfd \<le> sect_vma idata"
    and "va = sect_vma idata - pe_ImageBase abfd"
    and "e = va + of_nat (bfd_section_size idata)"
    and "va \<le> pe_import_table_va abfd" and "pe_import_table_va abfd < e"
    and "\<not> sect_readable idata"
  shows "is_linked_with_cygwin_dll host abfd = Inr (False, [Failed_to_get_contents])"
proof -
  have a: "\<not> pe_import_table_va abfd < sect_vma idata - pe_ImageBase abfd"
    using assms by (simp add: not_less)
  have b: "\<not> sect_vma idata - pe_ImageBase abfd + of_nat (bfd_section_size idata)
               \<le> pe_import_table_va abfd"
    using assms by (simp add: not_le)
  show ?thesis
    using assms a b
    by (simp add: is_linked_with_cygwin_dll_def Let_def bfd_get_section_contents_def)
qed

lemma is_linked_other_names:
  assumes sec: "bfd_get_section_by_name (pe_sections abfd) ''.idata'' = Some idata"
    and base: "pe_ImageBase abfd \<le> sect_vma idata"
    and other: "\<forall>k. \<not> entry_names_cygwin host (sect_contents idata)
                        (sect_vma idata - pe_ImageBase abfd)
                        (unat (pe_import_table_va abfd - (sect_vma idata - pe_ImageBase abfd))
                         + 20 * k)"
  shows "\<exists>ws. is_linked_with_cygwin_dll host abfd = Inr (False, ws)"
proof -
  define va where "va = sect_vma idata - pe_ImageBase abfd"
  define e where "e = va + of_nat (bfd_section_size idata)"
  consider (out) "pe_import_table_va abfd < va \<or> e \<le> pe_import_table_va abfd"
    | (unreadable) "va \<le> pe_import_table_va abfd" "pe_import_table_va abfd < e"
        "\<not> sect_readable idata"
    | (walk) "va \<le> pe_import_table_va abfd" "pe_import_table_va abfd < e"
        "sect_readable idata"
    by (meson not_less)
  then show ?thesis
  proof cases
    case out
    then show ?thesis
      using is_linked_outside [of abfd idata host] sec base by (simp add: va_def e_def)
  next
    case unreadable
    then show ?thesis
      using is_linked_unreadable [OF sec base va_def e_def] by simp
  next
    case walk
    let ?w = "import_walk host (sect_contents idata) va e (unat (pe_import_table_va abfd - va))"
    have eq: "is_linked_with_cygwin_dll host abfd = ?w"
      using is_linked_walk [OF sec base va_def e_def] walk by simp
    have "?w \<noteq> Inl f" for f by (rule import_walk_no_fault)
    then obtain r ws where r: "?w = Inr (r, ws)"
      by (cases ?w) auto
    have "\<not> r"
    proof
      assume r
      with r have "?w = Inr (True, ws)" by simp
      then obtain k where
        "entry_names_cygwin host (sect_contents idata) va
           (unat (pe_import_table_va abfd - va) + 20 * k)"
        unfolding import_walk_True_iff by blast
      with other show False by (simp add: va_def)
    qed
    with r eq show ?thesis by simp
  qed
qed

lemma example_other_no_cygwin:
  "take 12 (drop n (example_directory @ example_names_other)) \<noteq> c_literal CYGWIN_DLL_NAME"
proof
  define c where "c = example_directory @ example_names_other"
  assume "take 12 (drop n (example_directory @ example_names_other))
            = c_literal CYGWIN_DLL_NAME"
  then have eq: "take 12 (drop n c)
            = [0x63, 0x79, 0x67, 0x77, 0x69, 0x6E, 0x31, 0x2E, 0x64, 0x6C, 0x6C, 0]"
    by (simp only: c_def cygwin_literal_bytes)
  have n: "n < length c"
  proof (rule ccontr)
    assume "\<not> n < length c"
    then have "take 12 (drop n c) = []" by simp
    with eq show False by simp
  qed
  have "take 12 (drop n c) ! 0 = c ! n"
    using n by (simp add: nth_take)
  then have "c ! n = 0x63"
    unfolding eq by simp
  then have "(0x63 :: byte) \<in> set c"
    using n by (metis nth_mem)
  then show False
    unfolding c_def example_contents_other by simp
qed

lemma example_other_names:
  "\<not> entry_names_cygwin host (example_directory @ example_names_other) va iter"
  unfolding entry_names_cygwin_def using example_other_no_cygwin by blast

lemma example_walk_cygwin_20:
  "import_walk BFD_ENDIAN_LITTLE (example_directory @ example_names_cygwin) 0x2000 0x2050 20
     = Inr (True, [])"
  unfolding example_contents_cygwin
  by (simp add: import_walk_unfold entry_name_va_def extract_unsigned_integer_def
        cygwin_literal_bytes replicate_20_bytes)

lemma example_walk_cygwin_40:
  "import_walk BFD_ENDIAN_LITTLE (example_directory @ example_names_cygwin) 0x2000 0x2050 40
     = Inr (False, [])"
  unfolding example_contents_cygwin
  by (simp add: import_walk_unfold entry_name_va_def extract_unsigned_integer_def
        cygwin_literal_bytes replicate_20_bytes)

text \<open>
  C4. \<open>is_linked_with_cygwin_dll\<close> returns false, without a warning, when the binary has
  no \<^verbatim>\<open>.idata\<close> section. With a \<^verbatim>\<open>.idata\<close> section whose address is not below the image
  base (the assertion of the source; below it the function does not return), it returns
  false after the one warning when the virtual address of the import table is outside the
  range of the section, and false after a warning when the contents cannot be read.
  Otherwise its result is that of the walk that starts at the offset of the import table in
  the section, and it is true exactly when some live entry of the directory, counted from
  that offset in steps of 20 bytes, names \<open>cygwin1.dll\<close> and every entry before it is
  live and names something else. So it returns false for every directory none of whose entries
  names \<open>cygwin1.dll\<close>, and it can return true only if the 12 bytes of \<open>cygwin1.dll\<close> with
  its NUL stand in the section. For the hand-built section whose directory names
  \<open>foo.dll\<close> and \<open>cygwin1.dll\<close> it returns true from the start of the directory and from
  its second entry, and false from the terminator; for the one whose directory names
  \<open>foo.dll\<close> and \<open>bar.dll\<close> it returns false.
\<close>

theorem is_linked_with_cygwin_dll_cases:
  "(bfd_get_section_by_name (pe_sections abfd) ''.idata'' = None
      \<longrightarrow> is_linked_with_cygwin_dll host abfd = Inr (False, []))
   \<and> (bfd_get_section_by_name (pe_sections abfd) ''.idata'' = Some idata
        \<and> sect_vma idata < pe_ImageBase abfd
      \<longrightarrow> is_linked_with_cygwin_dll host abfd = Inl Assertion_failed)
   \<and> (bfd_get_section_by_name (pe_sections abfd) ''.idata'' = Some idata
        \<and> pe_ImageBase abfd \<le> sect_vma idata
        \<and> (pe_import_table_va abfd < sect_vma idata - pe_ImageBase abfd
             \<or> sect_vma idata - pe_ImageBase abfd + of_nat (bfd_section_size idata)
                 \<le> pe_import_table_va abfd)
      \<longrightarrow> is_linked_with_cygwin_dll host abfd = Inr (False, [Import_table_outside_idata]))
   \<and> (bfd_get_section_by_name (pe_sections abfd) ''.idata'' = Some idata
        \<and> pe_ImageBase abfd \<le> sect_vma idata
        \<and> va = sect_vma idata - pe_ImageBase abfd
        \<and> e = va + of_nat (bfd_section_size idata)
        \<and> va \<le> pe_import_table_va abfd \<and> pe_import_table_va abfd < e
        \<and> \<not> sect_readable idata
      \<longrightarrow> is_linked_with_cygwin_dll host abfd = Inr (False, [Failed_to_get_contents]))
   \<and> (bfd_get_section_by_name (pe_sections abfd) ''.idata'' = Some idata
        \<and> pe_ImageBase abfd \<le> sect_vma idata
        \<and> va = sect_vma idata - pe_ImageBase abfd
        \<and> e = va + of_nat (bfd_section_size idata)
        \<and> va \<le> pe_import_table_va abfd \<and> pe_import_table_va abfd < e
        \<and> sect_readable idata
      \<longrightarrow> is_linked_with_cygwin_dll host abfd
            = import_walk host (sect_contents idata) va e (unat (pe_import_table_va abfd - va))
          \<and> (is_linked_with_cygwin_dll host abfd = Inr (True, ws)
               \<longleftrightarrow> ws = []
                   \<and> (\<exists>k. (\<forall>j<k. entry_live host (sect_contents idata) va e
                                      (unat (pe_import_table_va abfd - va) + 20 * j)
                                  \<and> \<not> entry_names_cygwin host (sect_contents idata) va
                                        (unat (pe_import_table_va abfd - va) + 20 * j))
                          \<and> entry_live host (sect_contents idata) va e
                               (unat (pe_import_table_va abfd - va) + 20 * k)
                          \<and> entry_names_cygwin host (sect_contents idata) va
                               (unat (pe_import_table_va abfd - va) + 20 * k))))
   \<and> (bfd_get_section_by_name (pe_sections abfd) ''.idata'' = Some idata
        \<and> pe_ImageBase abfd \<le> sect_vma idata
        \<and> (\<forall>k. \<not> entry_names_cygwin host (sect_contents idata)
                     (sect_vma idata - pe_ImageBase abfd)
                     (unat (pe_import_table_va abfd - (sect_vma idata - pe_ImageBase abfd))
                      + 20 * k))
      \<longrightarrow> (\<exists>ws'. is_linked_with_cygwin_dll host abfd = Inr (False, ws')))
   \<and> (is_linked_with_cygwin_dll host abfd = Inr (True, ws)
      \<longrightarrow> (\<exists>idata off. bfd_get_section_by_name (pe_sections abfd) ''.idata'' = Some idata
             \<and> off + 12 \<le> bfd_section_size idata
             \<and> take 12 (drop off (sect_contents idata)) = c_literal CYGWIN_DLL_NAME))
   \<and> is_linked_with_cygwin_dll BFD_ENDIAN_LITTLE (example_pe example_names_cygwin 0x2000)
       = Inr (True, [])
   \<and> is_linked_with_cygwin_dll BFD_ENDIAN_LITTLE (example_pe example_names_cygwin 0x2014)
       = Inr (True, [])
   \<and> is_linked_with_cygwin_dll BFD_ENDIAN_LITTLE (example_pe example_names_cygwin 0x2028)
       = Inr (False, [])
   \<and> is_linked_with_cygwin_dll BFD_ENDIAN_LITTLE (example_pe example_names_other 0x2000)
       = Inr (False, [])"
proof (intro conjI impI)
  show "is_linked_with_cygwin_dll host abfd = Inr (False, [])"
    if "bfd_get_section_by_name (pe_sections abfd) ''.idata'' = None"
    using that by (simp add: is_linked_with_cygwin_dll_def)
  show "is_linked_with_cygwin_dll host abfd = Inl Assertion_failed"
    if "bfd_get_section_by_name (pe_sections abfd) ''.idata'' = Some idata
        \<and> sect_vma idata < pe_ImageBase abfd"
    using that by (rule is_linked_assert)
  show "is_linked_with_cygwin_dll host abfd = Inr (False, [Import_table_outside_idata])"
    if "bfd_get_section_by_name (pe_sections abfd) ''.idata'' = Some idata
        \<and> pe_ImageBase abfd \<le> sect_vma idata
        \<and> (pe_import_table_va abfd < sect_vma idata - pe_ImageBase abfd
             \<or> sect_vma idata - pe_ImageBase abfd + of_nat (bfd_section_size idata)
                 \<le> pe_import_table_va abfd)"
    using that by (rule is_linked_outside)
  show "is_linked_with_cygwin_dll host abfd = Inr (False, [Failed_to_get_contents])"
    if "bfd_get_section_by_name (pe_sections abfd) ''.idata'' = Some idata
        \<and> pe_ImageBase abfd \<le> sect_vma idata
        \<and> va = sect_vma idata - pe_ImageBase abfd
        \<and> e = va + of_nat (bfd_section_size idata)
        \<and> va \<le> pe_import_table_va abfd \<and> pe_import_table_va abfd < e
        \<and> \<not> sect_readable idata"
    using that
    by (elim conjE, intro is_linked_unreadable [where idata = idata and va = va and e = e])
  have walk: "is_linked_with_cygwin_dll host abfd
            = import_walk host (sect_contents idata) va e (unat (pe_import_table_va abfd - va))"
    if "bfd_get_section_by_name (pe_sections abfd) ''.idata'' = Some idata
        \<and> pe_ImageBase abfd \<le> sect_vma idata
        \<and> va = sect_vma idata - pe_ImageBase abfd
        \<and> e = va + of_nat (bfd_section_size idata)
        \<and> va \<le> pe_import_table_va abfd \<and> pe_import_table_va abfd < e
        \<and> sect_readable idata"
    using that
    by (elim conjE, intro is_linked_walk [where idata = idata and va = va and e = e])
  then show "is_linked_with_cygwin_dll host abfd
            = import_walk host (sect_contents idata) va e (unat (pe_import_table_va abfd - va))"
    if "bfd_get_section_by_name (pe_sections abfd) ''.idata'' = Some idata
        \<and> pe_ImageBase abfd \<le> sect_vma idata
        \<and> va = sect_vma idata - pe_ImageBase abfd
        \<and> e = va + of_nat (bfd_section_size idata)
        \<and> va \<le> pe_import_table_va abfd \<and> pe_import_table_va abfd < e
        \<and> sect_readable idata"
    using that by blast
  show "is_linked_with_cygwin_dll host abfd = Inr (True, ws)
               \<longleftrightarrow> ws = []
                   \<and> (\<exists>k. (\<forall>j<k. entry_live host (sect_contents idata) va e
                                      (unat (pe_import_table_va abfd - va) + 20 * j)
                                  \<and> \<not> entry_names_cygwin host (sect_contents idata) va
                                        (unat (pe_import_table_va abfd - va) + 20 * j))
                          \<and> entry_live host (sect_contents idata) va e
                               (unat (pe_import_table_va abfd - va) + 20 * k)
                          \<and> entry_names_cygwin host (sect_contents idata) va
                               (unat (pe_import_table_va abfd - va) + 20 * k))"
    if "bfd_get_section_by_name (pe_sections abfd) ''.idata'' = Some idata
        \<and> pe_ImageBase abfd \<le> sect_vma idata
        \<and> va = sect_vma idata - pe_ImageBase abfd
        \<and> e = va + of_nat (bfd_section_size idata)
        \<and> va \<le> pe_import_table_va abfd \<and> pe_import_table_va abfd < e
        \<and> sect_readable idata"
    unfolding walk [OF that] by (rule import_walk_True_iff)
  show "\<exists>ws'. is_linked_with_cygwin_dll host abfd = Inr (False, ws')"
    if "bfd_get_section_by_name (pe_sections abfd) ''.idata'' = Some idata
        \<and> pe_ImageBase abfd \<le> sect_vma idata
        \<and> (\<forall>k. \<not> entry_names_cygwin host (sect_contents idata)
                     (sect_vma idata - pe_ImageBase abfd)
                     (unat (pe_import_table_va abfd - (sect_vma idata - pe_ImageBase abfd))
                      + 20 * k))"
    using that by (elim conjE, intro is_linked_other_names [where idata = idata])
  show "\<exists>idata off. bfd_get_section_by_name (pe_sections abfd) ''.idata'' = Some idata
             \<and> off + 12 \<le> bfd_section_size idata
             \<and> take 12 (drop off (sect_contents idata)) = c_literal CYGWIN_DLL_NAME"
    if t: "is_linked_with_cygwin_dll host abfd = Inr (True, ws)"
  proof -
    from t obtain idata where
      sec: "bfd_get_section_by_name (pe_sections abfd) ''.idata'' = Some idata"
      by (auto simp: is_linked_with_cygwin_dll_def split: option.splits)
    from t sec obtain va e iter where
      w: "import_walk host (sect_contents idata) va e iter = Inr (True, ws)"
      by (auto simp: is_linked_with_cygwin_dll_def Let_def bfd_get_section_contents_def
            bfd_section_size_def split: option.splits if_splits)
    from import_walk_True [OF w] sec show ?thesis
      by (auto simp: bfd_section_size_def)
  qed
  show "is_linked_with_cygwin_dll BFD_ENDIAN_LITTLE (example_pe example_names_cygwin 0x2000)
       = Inr (True, [])"
    using example_walk_cygwin
    by (simp add: is_linked_with_cygwin_dll_def example_pe_def bfd_get_section_by_name_def
          bfd_get_section_contents_def bfd_section_size_def Let_def example_contents_cygwin)
  show "is_linked_with_cygwin_dll BFD_ENDIAN_LITTLE (example_pe example_names_cygwin 0x2014)
       = Inr (True, [])"
    using example_walk_cygwin_20
    by (simp add: is_linked_with_cygwin_dll_def example_pe_def bfd_get_section_by_name_def
          bfd_get_section_contents_def bfd_section_size_def Let_def example_contents_cygwin)
  show "is_linked_with_cygwin_dll BFD_ENDIAN_LITTLE (example_pe example_names_cygwin 0x2028)
       = Inr (False, [])"
    using example_walk_cygwin_40
    by (simp add: is_linked_with_cygwin_dll_def example_pe_def bfd_get_section_by_name_def
          bfd_get_section_contents_def bfd_section_size_def Let_def example_contents_cygwin)
  show "is_linked_with_cygwin_dll BFD_ENDIAN_LITTLE (example_pe example_names_other 0x2000)
       = Inr (False, [])"
    using example_walk_other
    by (simp add: is_linked_with_cygwin_dll_def example_pe_def bfd_get_section_by_name_def
          bfd_get_section_contents_def bfd_section_size_def Let_def example_contents_other)
qed

theorem is_linked_with_cygwin_dll_cases_witness:
  "is_linked_with_cygwin_dll BFD_ENDIAN_LITTLE
        \<lparr>pe_sections = [], pe_ImageBase = 0x400000, pe_import_table_va = 0x2000\<rparr>
     = Inr (False, [])
   \<and> is_linked_with_cygwin_dll BFD_ENDIAN_LITTLE
        \<lparr>pe_sections = [\<lparr>sect_name = ''.idata'', sect_vma = 0x402000,
                         sect_contents = example_directory @ example_names_cygwin,
                         sect_readable = True\<rparr>],
          pe_ImageBase = 0x500000, pe_import_table_va = 0x2000\<rparr>
     = Inl Assertion_failed
   \<and> is_linked_with_cygwin_dll BFD_ENDIAN_LITTLE (example_pe example_names_cygwin 0x2050)
     = Inr (False, [Import_table_outside_idata])
   \<and> is_linked_with_cygwin_dll BFD_ENDIAN_LITTLE
        \<lparr>pe_sections = [\<lparr>sect_name = ''.idata'', sect_vma = 0x402000,
                         sect_contents = example_directory @ example_names_cygwin,
                         sect_readable = False\<rparr>],
          pe_ImageBase = 0x400000, pe_import_table_va = 0x2000\<rparr>
     = Inr (False, [Failed_to_get_contents])
   \<and> is_linked_with_cygwin_dll BFD_ENDIAN_LITTLE (example_pe example_names_cygwin 0x2028)
     = import_walk BFD_ENDIAN_LITTLE (example_directory @ example_names_cygwin)
         0x2000 0x2050 40
   \<and> (\<exists>k. (\<forall>j<k. entry_live BFD_ENDIAN_LITTLE (example_directory @ example_names_cygwin)
                       0x2000 0x2050 (0 + 20 * j)
                   \<and> \<not> entry_names_cygwin BFD_ENDIAN_LITTLE
                         (example_directory @ example_names_cygwin) 0x2000 (0 + 20 * j))
           \<and> entry_live BFD_ENDIAN_LITTLE (example_directory @ example_names_cygwin)
                0x2000 0x2050 (0 + 20 * k)
           \<and> entry_names_cygwin BFD_ENDIAN_LITTLE (example_directory @ example_names_cygwin)
                0x2000 (0 + 20 * k))
   \<and> (\<exists>ws. is_linked_with_cygwin_dll BFD_ENDIAN_LITTLE (example_pe example_names_other 0x2014)
               = Inr (False, ws))
   \<and> (\<exists>idata off.
         bfd_get_section_by_name (pe_sections (example_pe example_names_cygwin 0x2000)) ''.idata''
           = Some idata
         \<and> off + 12 \<le> bfd_section_size idata
         \<and> take 12 (drop off (sect_contents idata)) = c_literal CYGWIN_DLL_NAME)"
proof -
  note main = is_linked_with_cygwin_dll_cases
  let ?c = "example_directory @ example_names_cygwin"
  let ?idata = "\<lparr>sect_name = ''.idata'', sect_vma = 0x402000,
                  sect_contents = ?c, sect_readable = True\<rparr>"
  let ?closed = "\<lparr>sect_name = ''.idata'', sect_vma = 0x402000,
                  sect_contents = ?c, sect_readable = False\<rparr>"
  let ?other = "\<lparr>sect_name = ''.idata'', sect_vma = 0x402000,
                  sect_contents = example_directory @ example_names_other,
                  sect_readable = True\<rparr>"
  let ?empty = "\<lparr>pe_sections = [], pe_ImageBase = 0x400000, pe_import_table_va = 0x2000\<rparr>"
  let ?high = "\<lparr>pe_sections = [?idata], pe_ImageBase = 0x500000, pe_import_table_va = 0x2000\<rparr>"
  let ?shut = "\<lparr>pe_sections = [?closed], pe_ImageBase = 0x400000, pe_import_table_va = 0x2000\<rparr>"
  have l1: "length example_directory = 60"
    by (simp add: example_directory_def)
  have l2: "length example_names_cygwin = 20"
    by (simp add: example_names_cygwin_def c_literal_def)
  have none: "bfd_get_section_by_name (pe_sections ?empty) ''.idata'' = None"
    by (simp add: bfd_get_section_by_name_def)
  have a: "is_linked_with_cygwin_dll BFD_ENDIAN_LITTLE ?empty = Inr (False, [])"
    using main [where abfd = ?empty and host = BFD_ENDIAN_LITTLE] none by blast
  have high: "bfd_get_section_by_name (pe_sections ?high) ''.idata'' = Some ?idata
                \<and> sect_vma ?idata < pe_ImageBase ?high"
    by (simp add: bfd_get_section_by_name_def)
  have b: "is_linked_with_cygwin_dll BFD_ENDIAN_LITTLE ?high = Inl Assertion_failed"
    using main [where abfd = ?high and idata = ?idata and host = BFD_ENDIAN_LITTLE] high
    by blast
  have out: "bfd_get_section_by_name (pe_sections (example_pe example_names_cygwin 0x2050))
               ''.idata'' = Some ?idata
        \<and> pe_ImageBase (example_pe example_names_cygwin 0x2050) \<le> sect_vma ?idata
        \<and> (pe_import_table_va (example_pe example_names_cygwin 0x2050)
               < sect_vma ?idata - pe_ImageBase (example_pe example_names_cygwin 0x2050)
             \<or> sect_vma ?idata - pe_ImageBase (example_pe example_names_cygwin 0x2050)
                   + of_nat (bfd_section_size ?idata)
                 \<le> pe_import_table_va (example_pe example_names_cygwin 0x2050))"
    by (simp add: example_pe_def bfd_get_section_by_name_def bfd_section_size_def l1 l2)
  have c: "is_linked_with_cygwin_dll BFD_ENDIAN_LITTLE (example_pe example_names_cygwin 0x2050)
             = Inr (False, [Import_table_outside_idata])"
    using main [where abfd = "example_pe example_names_cygwin 0x2050" and idata = ?idata
        and host = BFD_ENDIAN_LITTLE] out by blast
  have shut: "bfd_get_section_by_name (pe_sections ?shut) ''.idata'' = Some ?closed
        \<and> pe_ImageBase ?shut \<le> sect_vma ?closed
        \<and> (0x2000 :: 64 word) = sect_vma ?closed - pe_ImageBase ?shut
        \<and> (0x2050 :: 64 word) = 0x2000 + of_nat (bfd_section_size ?closed)
        \<and> (0x2000 :: 64 word) \<le> pe_import_table_va ?shut
        \<and> pe_import_table_va ?shut < (0x2050 :: 64 word)
        \<and> \<not> sect_readable ?closed"
    by (simp add: bfd_get_section_by_name_def bfd_section_size_def l1 l2)
  have d: "is_linked_with_cygwin_dll BFD_ENDIAN_LITTLE ?shut
             = Inr (False, [Failed_to_get_contents])"
    using main [where abfd = ?shut and idata = ?closed and host = BFD_ENDIAN_LITTLE
        and va = "0x2000" and e = "0x2050"] shut by blast
  have pre: "bfd_get_section_by_name (pe_sections (example_pe example_names_cygwin itv))
               ''.idata'' = Some ?idata
        \<and> pe_ImageBase (example_pe example_names_cygwin itv) \<le> sect_vma ?idata
        \<and> (0x2000 :: 64 word)
            = sect_vma ?idata - pe_ImageBase (example_pe example_names_cygwin itv)
        \<and> (0x2050 :: 64 word) = 0x2000 + of_nat (bfd_section_size ?idata)
        \<and> sect_readable ?idata" for itv
    by (simp add: example_pe_def bfd_get_section_by_name_def bfd_section_size_def l1 l2)
  have r28: "(0x2000 :: 64 word) \<le> pe_import_table_va (example_pe example_names_cygwin 0x2028)
        \<and> pe_import_table_va (example_pe example_names_cygwin 0x2028) < (0x2050 :: 64 word)
        \<and> unat (pe_import_table_va (example_pe example_names_cygwin 0x2028) - 0x2000) = 40"
    by (simp add: example_pe_def)
  have r00: "(0x2000 :: 64 word) \<le> pe_import_table_va (example_pe example_names_cygwin 0x2000)
        \<and> pe_import_table_va (example_pe example_names_cygwin 0x2000) < (0x2050 :: 64 word)
        \<and> unat (pe_import_table_va (example_pe example_names_cygwin 0x2000) - 0x2000) = 0"
    by (simp add: example_pe_def)
  have "is_linked_with_cygwin_dll BFD_ENDIAN_LITTLE (example_pe example_names_cygwin 0x2028)
     = import_walk BFD_ENDIAN_LITTLE (sect_contents ?idata) 0x2000 0x2050
         (unat (pe_import_table_va (example_pe example_names_cygwin 0x2028) - 0x2000))"
    using main [where abfd = "example_pe example_names_cygwin 0x2028" and idata = ?idata
        and host = BFD_ENDIAN_LITTLE and va = "0x2000" and e = "0x2050"]
      pre [of "0x2028"] r28 by blast
  then have e: "is_linked_with_cygwin_dll BFD_ENDIAN_LITTLE
        (example_pe example_names_cygwin 0x2028)
     = import_walk BFD_ENDIAN_LITTLE ?c 0x2000 0x2050 40"
    using r28 by simp
  have t: "is_linked_with_cygwin_dll BFD_ENDIAN_LITTLE (example_pe example_names_cygwin 0x2000)
             = Inr (True, [])"
    using main by blast
  have "\<exists>k. (\<forall>j<k. entry_live BFD_ENDIAN_LITTLE (sect_contents ?idata) 0x2000 0x2050
                 (unat (pe_import_table_va (example_pe example_names_cygwin 0x2000) - 0x2000)
                  + 20 * j)
               \<and> \<not> entry_names_cygwin BFD_ENDIAN_LITTLE (sect_contents ?idata) 0x2000
                 (unat (pe_import_table_va (example_pe example_names_cygwin 0x2000) - 0x2000)
                  + 20 * j))
           \<and> entry_live BFD_ENDIAN_LITTLE (sect_contents ?idata) 0x2000 0x2050
                 (unat (pe_import_table_va (example_pe example_names_cygwin 0x2000) - 0x2000)
                  + 20 * k)
           \<and> entry_names_cygwin BFD_ENDIAN_LITTLE (sect_contents ?idata) 0x2000
                 (unat (pe_import_table_va (example_pe example_names_cygwin 0x2000) - 0x2000)
                  + 20 * k)"
    using main [where abfd = "example_pe example_names_cygwin 0x2000" and idata = ?idata
        and host = BFD_ENDIAN_LITTLE and va = "0x2000" and e = "0x2050" and ws = "[]"]
      pre [of "0x2000"] r00 t by blast
  then have f: "\<exists>k. (\<forall>j<k. entry_live BFD_ENDIAN_LITTLE ?c 0x2000 0x2050 (0 + 20 * j)
                   \<and> \<not> entry_names_cygwin BFD_ENDIAN_LITTLE ?c 0x2000 (0 + 20 * j))
           \<and> entry_live BFD_ENDIAN_LITTLE ?c 0x2000 0x2050 (0 + 20 * k)
           \<and> entry_names_cygwin BFD_ENDIAN_LITTLE ?c 0x2000 (0 + 20 * k)"
    using r00 by simp
  have oth: "bfd_get_section_by_name (pe_sections (example_pe example_names_other 0x2014))
               ''.idata'' = Some ?other
        \<and> pe_ImageBase (example_pe example_names_other 0x2014) \<le> sect_vma ?other"
    by (simp add: example_pe_def bfd_get_section_by_name_def)
  have nonames: "\<forall>k. \<not> entry_names_cygwin BFD_ENDIAN_LITTLE (sect_contents ?other)
                     (sect_vma ?other - pe_ImageBase (example_pe example_names_other 0x2014))
                     (unat (pe_import_table_va (example_pe example_names_other 0x2014)
                            - (sect_vma ?other
                               - pe_ImageBase (example_pe example_names_other 0x2014)))
                      + 20 * k)"
    by (simp add: example_other_names)
  have g: "\<exists>ws. is_linked_with_cygwin_dll BFD_ENDIAN_LITTLE
                   (example_pe example_names_other 0x2014) = Inr (False, ws)"
    using main [where abfd = "example_pe example_names_other 0x2014" and idata = ?other
        and host = BFD_ENDIAN_LITTLE] oth nonames by blast
  have h: "\<exists>idata off.
         bfd_get_section_by_name (pe_sections (example_pe example_names_cygwin 0x2000)) ''.idata''
           = Some idata
         \<and> off + 12 \<le> bfd_section_size idata
         \<and> take 12 (drop off (sect_contents idata)) = c_literal CYGWIN_DLL_NAME"
    using main [where abfd = "example_pe example_names_cygwin 0x2000"
        and host = BFD_ENDIAN_LITTLE and ws = "[]"] t by blast
  from a b c d e f g h show ?thesis by blast
qed

subsection \<open>Module list of a dump\<close>

lemma char_of_letters:
  "char_of (0x2E::nat) = CHR ''.''"
  "char_of (0x64::nat) = CHR ''d''"
  "char_of (0x65::nat) = CHR ''e''"
  "char_of (0x69::nat) = CHR ''i''"
  "char_of (0x6C::nat) = CHR ''l''"
  "char_of (0x70::nat) = CHR ''p''"
  "char_of (0x78::nat) = CHR ''x''"
  by code_simp+

lemma chars_of_bytes_append_NUL:
  "c_string (chars_of_bytes (bs @ [0])) = c_string (chars_of_bytes bs)"
  by (simp add: chars_of_bytes_def char_of_examples(1) c_string_append_NUL)

lemma windows_xfer_shared_library_element:
  "fst (windows_xfer_shared_library env g so_name load_addr None obstack)
     = obstack @ library_element env g (so_name, load_addr)"
  by (simp add: windows_xfer_shared_library_def library_element_def Let_def)

lemma startswith_module_not_coremodule:
  "startswith s ''.module'' \<Longrightarrow> \<not> startswith s ''.coremodule/''"
proof
  assume m: "startswith s ''.module''" and c: "startswith s ''.coremodule/''"
  have a: "take 7 s = ''.module''"
    using m by (simp add: startswith_def eval_nat_numeral)
  have b: "take 12 s = ''.coremodule/''"
    using c by (simp add: startswith_def eval_nat_numeral)
  have "take 2 (take 7 s) = take 2 (take 12 s)" by simp
  then show False unfolding a b by simp
qed

lemma core_process_module_section_decode:
  "core_process_module_section env g sect data =
     (case decode_module env g sect of
        None \<Rightarrow> data
      | Some m \<Rightarrow>
          data\<lparr>cpms_obstack :=
                 (if module_count data \<noteq> 0 then cpms_obstack data @ library_element env g m
                  else cpms_obstack data),
               module_count := module_count data + 1\<rparr>)"
proof (cases "sect_readable sect")
  case False
  then show ?thesis
    by (simp add: core_process_module_section_def decode_module_def Let_def
          bfd_get_section_contents_def)
next
  case True
  then have rd: "bfd_get_section_contents sect 0 (length (sect_contents sect))
                   = Some (sect_contents sect)"
    by (simp add: bfd_get_section_contents_def bfd_section_size_def)
  show ?thesis
  proof (cases "startswith (sect_name sect) ''.coremodule/''")
    case True
    then show ?thesis
      using \<open>sect_readable sect\<close>
      by (simp add: core_process_module_section_def decode_module_def Let_def
            bfd_section_size_def rd core_get_module_name_def c_string_append_NUL
            windows_xfer_shared_library_element)
  next
    case nc: False
    show ?thesis
    proof (cases "startswith (sect_name sect) ''.module''")
      case False
      then show ?thesis
        using nc by (simp add: core_process_module_section_def decode_module_def Let_def)
    next
      case True
      define c where "c = sect_contents sect"
      have rd': "bfd_get_section_contents sect 0 (length c) = Some c"
        using rd by (simp add: c_def)
      have t4: "4 \<le> length c \<Longrightarrow> take 4 (c @ [0]) = take 4 c" by simp
      have d4: "12 \<le> length c \<Longrightarrow> take 4 (drop 4 (c @ [0])) = take 4 (drop 4 c)" by simp
      have d8: "12 \<le> length c \<Longrightarrow> take 4 (drop 8 (c @ [0])) = take 4 (drop 8 c)" by simp
      have e4: "16 \<le> length c \<Longrightarrow> take 8 (drop 4 (c @ [0])) = take 8 (drop 4 c)" by simp
      have e12: "16 \<le> length c \<Longrightarrow> take 4 (drop 12 (c @ [0])) = take 4 (drop 12 c)"
        by simp
      show ?thesis
        using True nc \<open>sect_readable sect\<close>
        by (auto simp: core_process_module_section_def decode_module_def Let_def
              bfd_section_size_def rd' legacy_module_section_def NOTE_INFO_MODULE_def
              NOTE_INFO_MODULE64_def windows_xfer_shared_library_element
              c_def [symmetric] t4 d4 d8 e4 e12 chars_of_bytes_append_NUL not_less)
    qed
  qed
qed

lemma fold_core_process_module_section:
  "0 \<le> module_count data \<Longrightarrow>
   fold (core_process_module_section env g) sects data =
     data\<lparr>cpms_obstack :=
            cpms_obstack data
            @ concat (map (library_element env g)
                (if module_count data = 0
                 then drop 1 (List.map_filter (decode_module env g) sects)
                 else List.map_filter (decode_module env g) sects)),
          module_count :=
            module_count data + int (length (List.map_filter (decode_module env g) sects))\<rparr>"
proof (induction sects arbitrary: data)
  case Nil
  then show ?case by (simp add: List.map_filter_simps)
next
  case (Cons sect sects)
  show ?case
  proof (cases "decode_module env g sect")
    case None
    then show ?thesis
      using Cons.IH [OF Cons.prems]
      by (simp add: core_process_module_section_decode List.map_filter_simps)
  next
    case (Some m)
    define data' where "data' = data\<lparr>cpms_obstack :=
                 (if module_count data \<noteq> 0 then cpms_obstack data @ library_element env g m
                  else cpms_obstack data),
               module_count := module_count data + 1\<rparr>"
    have pos: "0 \<le> module_count data'" and nz: "module_count data' \<noteq> 0"
      using Cons.prems by (simp_all add: data'_def)
    have step: "core_process_module_section env g sect data = data'"
      using Some by (simp add: core_process_module_section_decode data'_def)
    show ?thesis
      using Cons.IH [OF pos] nz
      by (simp add: step Some List.map_filter_simps) (simp add: data'_def)
  qed
qed

lemma NUL_notin_hex_digits: "NUL \<notin> set (hex_digits n)"
proof (induction n rule: hex_digits.induct)
  case (1 n)
  have digit: "hex_digit d \<noteq> NUL" if "d < 16" for d
  proof -
    have "hex_digit d \<in> set ''0123456789abcdef''"
      unfolding hex_digit_def using that by (intro nth_mem) simp
    then show ?thesis by (auto simp: NUL_def)
  qed
  show ?case
  proof (cases "n < 16")
    case True
    then show ?thesis using digit [of n] by (subst hex_digits.simps) auto
  next
    case False
    then show ?thesis
      using "1.IH" digit [of "n mod 16"] by (subst hex_digits.simps) auto
  qed
qed

lemma NUL_notin_xml_escape_text: "NUL \<notin> set s \<Longrightarrow> NUL \<notin> set (xml_escape_text s)"
  by (induction s) (auto simp: NUL_def)

lemma NUL_notin_decoded_name:
  "decode_module env g sect = Some m \<Longrightarrow> NUL \<notin> set (fst m)"
  by (auto simp: decode_module_def Let_def NUL_notin_c_string split: if_splits)

lemma NUL_notin_library_element:
  "NUL \<notin> set (fst m) \<Longrightarrow> NUL \<notin> set (library_element env g m)"
  using NUL_notin_hex_digits
  by (auto simp: library_element_def paddress_def hex_string_def NUL_notin_xml_escape_text)
     (auto simp: NUL_def)

lemma NUL_notin_library_list_document:
  "\<forall>m \<in> set ms. NUL \<notin> set (fst m) \<Longrightarrow> NUL \<notin> set (library_list_document env g ms)"
  by (auto simp: library_list_document_def NUL_notin_library_element) (auto simp: NUL_def)

lemma decoded_names_no_NUL:
  "\<forall>m \<in> set (List.map_filter (decode_module env g) sects). NUL \<notin> set (fst m)"
  by (auto simp: List.map_filter_def NUL_notin_decoded_name)

lemma xfer_shared_libraries_document:
  "windows_core_xfer_shared_libraries env g core_bfd None offset len =
     (take len (drop offset
        (library_list_document env g (drop 1 (List.map_filter (decode_module env g) core_bfd)))),
      Some (library_list_document env g
              (drop 1 (List.map_filter (decode_module env g) core_bfd))))"
proof -
  define ms where "ms = drop 1 (List.map_filter (decode_module env g) core_bfd)"
  define doc where "doc = library_list_document env g ms"
  have "\<forall>m \<in> set ms. NUL \<notin> set (fst m)"
    unfolding ms_def using decoded_names_no_NUL [of env g core_bfd]
    by (auto dest: in_set_dropD)
  then have nn: "NUL \<notin> set doc"
    unfolding doc_def by (rule NUL_notin_library_list_document)
  have obst: "cpms_obstack (fold (core_process_module_section env g) core_bfd
                 \<lparr>cpms_obstack = ''<library-list>'' @ [CHR 0x0A], module_count = 0\<rparr>)
               @ ''</library-list>'' @ [CHR 0x0A] = doc"
    by (subst fold_core_process_module_section)
       (simp_all add: doc_def ms_def library_list_document_def)
  have last: "c_string (cpms_obstack (fold (core_process_module_section env g) core_bfd
                 \<lparr>cpms_obstack = ''<library-list>'' @ [CHR 0x0A], module_count = 0\<rparr>)
               @ ''</library-list>'' @ [CHR 0x0A] @ [NUL]) = doc"
    using obst nn
    by (metis append.assoc c_string_append_NUL c_string_no_NUL)
  show ?thesis
    unfolding windows_core_xfer_shared_libraries_def Let_def option.case last
    by (simp add: doc_def ms_def min_def)
qed

lemma example_decode_app:
  "decode_module example_env example_gdbarch example_app_section = Some (''app.exe'', 0x1000)"
  by (simp add: decode_module_def example_app_section_def example_gdbarch_def example_env_def
        startswith_def sscanf_llx_def hex_digit_value_def c_string_def Let_def
        char_of_examples char_of_letters)
     (simp add: NUL_def)

lemma example_decode_lib:
  "decode_module example_env example_gdbarch example_lib_section = Some (''lib.dll'', 0x2000)"
  by (simp add: decode_module_def example_lib_section_def example_gdbarch_def example_env_def
        startswith_def sscanf_llx_def hex_digit_value_def c_string_def Let_def
        char_of_examples char_of_letters)
     (simp add: NUL_def)

lemma example_bad_rejected: "legacy_rejected example_gdbarch example_bad_module_section"
  by (simp add: legacy_rejected_def example_bad_module_section_def example_gdbarch_def
        startswith_def bfd_section_size_def extract_unsigned_integer_def NOTE_INFO_MODULE_def
        NOTE_INFO_MODULE64_def Let_def)

lemma example_element_lib:
  "library_list_document example_env example_gdbarch [(''lib.dll'', 0x2000)]
     = example_document ''0x3000''"
  by (simp add: library_list_document_def library_element_def paddress_def hex_string_def
        hex_digits.simps hex_digit_def example_env_def example_gdbarch_def
        example_document_def)

lemma example_documents_differ: "example_document ''0x3000'' \<noteq> example_document ''0x2000''"
  by (simp add: example_document_def)

lemma legacy_rejected_decode:
  "legacy_rejected g sect \<Longrightarrow> decode_module env g sect = None"
  by (auto simp: legacy_rejected_def decode_module_def Let_def NOTE_INFO_MODULE_def
        NOTE_INFO_MODULE64_def dest: startswith_module_not_coremodule)

lemma char_of_capitals:
  "char_of (0x58::nat) = CHR ''X''"
  "char_of (0x59::nat) = CHR ''Y''"
  "char_of (0x5A::nat) = CHR ''Z''"
  by code_simp+

lemma char_of_byte_NUL: "char_of (unat (b :: byte)) = NUL \<longleftrightarrow> b = 0"
proof -
  have "unat b < 2 ^ 8" using unsigned_less [of b, where 'a = nat] by simp
  then have t: "unat b mod 256 = unat b" by simp
  have "char_of (unat b) = NUL \<longleftrightarrow> char_of (unat b) = char_of (0 :: nat)"
    by (simp add: char_of_examples(1))
  also have "\<dots> \<longleftrightarrow> unat b mod 256 = (0 :: nat) mod 256"
    by (rule char_of_quasi_inj)
  also have "\<dots> \<longleftrightarrow> b = 0"
    using t by (simp add: unat_eq_0)
  finally show ?thesis .
qed

lemma c_string_chars_of_bytes:
  "0 \<notin> set s \<Longrightarrow> c_string (chars_of_bytes (s @ 0 # rest)) = chars_of_bytes s"
proof -
  assume s: "0 \<notin> set s"
  have all: "\<forall>c \<in> set (chars_of_bytes s). c \<noteq> NUL"
    using s by (auto simp: chars_of_bytes_def char_of_byte_NUL)
  have "c_string (chars_of_bytes (s @ 0 # rest))
          = takeWhile (\<lambda>c. c \<noteq> NUL) (chars_of_bytes s @ NUL # chars_of_bytes rest)"
    by (simp add: c_string_def chars_of_bytes_def char_of_examples(1))
  also have "\<dots> = takeWhile (\<lambda>c. c \<noteq> NUL) (chars_of_bytes s)"
    by (rule takeWhile_tail) simp
  also have "\<dots> = chars_of_bytes s"
    using all by (simp add: takeWhile_eq_all_conv)
  finally show ?thesis .
qed

lemma decode_module_indexed:
  "sect_readable sect \<and> startswith (sect_name sect) ''.coremodule/'' \<Longrightarrow>
   decode_module env g sect
     = Some (c_string (wide_to_host g (sect_contents sect)),
             (case sscanf_llx (drop 12 (sect_name sect)) of
                Some a \<Rightarrow> a | None \<Rightarrow> indeterminate_base_addr env))"
  by (simp add: decode_module_def Let_def)

lemma decode_module_legacy32:
  "sect_readable sect \<and> startswith (sect_name sect) ''.module''
     \<and> 4 \<le> bfd_section_size sect
     \<and> (ucast (extract_unsigned_integer (take 4 (sect_contents sect))
                  (gdbarch_byte_order g)) :: 32 word) = NOTE_INFO_MODULE
     \<and> 12 + unat (extract_unsigned_integer (take 4 (drop 8 (sect_contents sect)))
                     (gdbarch_byte_order g)) \<le> bfd_section_size sect
   \<Longrightarrow> decode_module env g sect
         = Some (c_string (chars_of_bytes (drop 12 (sect_contents sect))),
                 extract_unsigned_integer (take 4 (drop 4 (sect_contents sect)))
                   (gdbarch_byte_order g))"
  by (auto simp: decode_module_def Let_def NOTE_INFO_MODULE_def
        dest: startswith_module_not_coremodule)

lemma decode_module_legacy64:
  "sect_readable sect \<and> startswith (sect_name sect) ''.module''
     \<and> 4 \<le> bfd_section_size sect
     \<and> (ucast (extract_unsigned_integer (take 4 (sect_contents sect))
                  (gdbarch_byte_order g)) :: 32 word) = NOTE_INFO_MODULE64
     \<and> 16 + unat (extract_unsigned_integer (take 4 (drop 12 (sect_contents sect)))
                     (gdbarch_byte_order g)) \<le> bfd_section_size sect
   \<Longrightarrow> decode_module env g sect
         = Some (c_string (chars_of_bytes (drop 16 (sect_contents sect))),
                 extract_unsigned_integer (take 8 (drop 4 (sect_contents sect)))
                   (gdbarch_byte_order g))"
  by (auto simp: decode_module_def Let_def NOTE_INFO_MODULE64_def
        dest: startswith_module_not_coremodule)

lemma declared_name_exact:
  "take n (drop off c) = s @ [0] \<and> 0 \<notin> set s
   \<Longrightarrow> c_string (chars_of_bytes (drop off c)) = chars_of_bytes s"
proof -
  assume a: "take n (drop off c) = s @ [0] \<and> 0 \<notin> set s"
  define d where "d = drop off c"
  define r where "r = drop n d"
  have "d = take n d @ r" unfolding r_def by (rule append_take_drop_id [symmetric])
  moreover have "take n d = s @ [0]" using a by (simp add: d_def)
  ultimately have "d = s @ 0 # r" by simp
  then have "c_string (chars_of_bytes d) = chars_of_bytes s"
    using a c_string_chars_of_bytes [of s r] by simp
  then show ?thesis by (simp add: d_def)
qed

lemma example_decode_nul:
  "decode_module example_env example_gdbarch example_nul_section = Some (''a'', 0x3000)"
  by (simp add: decode_module_def example_nul_section_def example_gdbarch_def example_env_def
        startswith_def sscanf_llx_def hex_digit_value_def c_string_def Let_def
        char_of_examples char_of_letters)
     (simp add: NUL_def)

lemma example_nul_payload:
  "wide_to_host example_gdbarch (sect_contents example_nul_section)
     = [CHR ''a'', NUL, CHR ''b'']"
  by (simp add: example_nul_section_def example_gdbarch_def char_of_examples)

lemma example_decode_long:
  "decode_module example_env example_gdbarch example_long_section
     = Some (''a.eXYZ'', 0x400000)"
  by (simp add: decode_module_def example_long_section_def example_gdbarch_def example_env_def
        startswith_def bfd_section_size_def extract_unsigned_integer_def c_string_def Let_def
        chars_of_bytes_def char_of_examples char_of_letters char_of_capitals)
     (simp add: NUL_def)

lemma example_nul_document:
  "library_list_document example_env example_gdbarch [(''a'', 0x3000)]
     = ''<library-list>'' @ [CHR 0x0A]
       @ ''<library name='' @ [CHR 0x22] @ ''a'' @ [CHR 0x22]
       @ ''><segment address='' @ [CHR 0x22] @ ''0x4000'' @ [CHR 0x22] @ ''/></library>''
       @ ''</library-list>'' @ [CHR 0x0A]"
  by (simp add: library_list_document_def library_element_def paddress_def hex_string_def
        hex_digits.simps hex_digit_def example_env_def example_gdbarch_def)

lemma example_module32_facts:
  "sect_readable example_module32_section"
  "startswith (sect_name example_module32_section) ''.module''"
  "bfd_section_size example_module32_section = 16"
  "(ucast (extract_unsigned_integer (take 4 (sect_contents example_module32_section))
             (gdbarch_byte_order example_gdbarch)) :: 32 word) = NOTE_INFO_MODULE"
  "extract_unsigned_integer (take 4 (drop 8 (sect_contents example_module32_section)))
     (gdbarch_byte_order example_gdbarch) = 4"
  "extract_unsigned_integer (take 4 (drop 4 (sect_contents example_module32_section)))
     (gdbarch_byte_order example_gdbarch) = 0x400000"
  "drop 12 (sect_contents example_module32_section) = [0x61, 0x2E, 0x65] @ [0]"
  by (simp_all add: example_module32_section_def example_gdbarch_def startswith_def
        bfd_section_size_def extract_unsigned_integer_def NOTE_INFO_MODULE_def)

lemma example_module64_facts:
  "sect_readable example_module64_section"
  "startswith (sect_name example_module64_section) ''.module''"
  "bfd_section_size example_module64_section = 24"
  "(ucast (extract_unsigned_integer (take 4 (sect_contents example_module64_section))
             (gdbarch_byte_order example_gdbarch)) :: 32 word) = NOTE_INFO_MODULE64"
  "extract_unsigned_integer (take 4 (drop 12 (sect_contents example_module64_section)))
     (gdbarch_byte_order example_gdbarch) = 8"
  "extract_unsigned_integer (take 8 (drop 4 (sect_contents example_module64_section)))
     (gdbarch_byte_order example_gdbarch) = 0x400000"
  "drop 16 (sect_contents example_module64_section)
     = [0x6C, 0x69, 0x62, 0x2E, 0x64, 0x6C, 0x6C] @ [0]"
  by (simp_all add: example_module64_section_def example_gdbarch_def startswith_def
        bfd_section_size_def extract_unsigned_integer_def NOTE_INFO_MODULE64_def)

lemma example_name_bytes:
  "chars_of_bytes [0x61, 0x2E, 0x65] = ''a.e''"
  "chars_of_bytes [0x6C, 0x69, 0x62, 0x2E, 0x64, 0x6C, 0x6C] = ''lib.dll''"
  by (simp_all add: chars_of_bytes_def char_of_examples char_of_letters)

lemma example_lib_payload:
  "wide_to_host example_gdbarch (sect_contents example_lib_section) = ''lib.dll''"
  by (simp add: example_lib_section_def example_gdbarch_def char_of_examples char_of_letters)

lemma example_indexed_facts:
  "sect_readable example_lib_section"
  "startswith (sect_name example_lib_section) ''.coremodule/''"
  "sscanf_llx (drop 12 (sect_name example_lib_section)) = Some 0x2000"
  "sect_readable example_nul_section"
  "startswith (sect_name example_nul_section) ''.coremodule/''"
  "sscanf_llx (drop 12 (sect_name example_nul_section)) = Some 0x3000"
  by (simp_all add: example_lib_section_def example_nul_section_def startswith_def
        sscanf_llx_def hex_digit_value_def)

lemma decode_module_decoded:
  "decode_module env g sect \<noteq> None
   \<longleftrightarrow> sect_readable sect
       \<and> (startswith (sect_name sect) ''.coremodule/''
          \<or> (startswith (sect_name sect) ''.module'' \<and> \<not> legacy_rejected g sect))"
  by (auto simp: legacy_rejected_def decode_module_def Let_def NOTE_INFO_MODULE_def
        NOTE_INFO_MODULE64_def dest: startswith_module_not_coremodule)

text \<open>
  C1 (amended). The document built for a dump is the library list of the modules that its
  sections decode to, in discovery order, without the first of them, whichever convention
  that first module follows. The element of a module carries its name, XML-escaped, and
  as segment address its load address plus the offset of the text section of the library
  file of that name, which is \<open>0x1000\<close> when the file cannot be opened.

  A section decodes to a module exactly when it is readable and either follows the indexed
  convention or follows the legacy convention and is not rejected as malformed. The name of
  a module is a C string. For a readable section of the indexed convention it is the host
  re-encoding of the payload up to its first NUL character, which is the whole re-encoding
  exactly when that holds no NUL; the load address is the hexadecimal number in the
  section name. For a readable legacy section that passes the size checks it is the
  bytes from the fixed name offset of its tag (12 for \<open>MODULE32\<close>, 16 for \<open>MODULE64\<close>) up
  to the first NUL byte or the end of the section, whatever name length the section
  declares; it is the declared name when the declared bytes are a name without NUL
  followed by one NUL. So the payload a, code unit 0, b of \<^verbatim>\<open>.coremodule/3000\<close> gives the
  name \<open>a\<close>, and a legacy section declaring 3 name bytes in front of \<open>a.eXYZ\<close> gives the
  name \<open>a.eXYZ\<close>.

  A dump with the sections \<^verbatim>\<open>.coremodule/1000\<close> holding \<open>app.exe\<close> and
  \<^verbatim>\<open>.coremodule/2000\<close> holding \<open>lib.dll\<close> decodes to these two modules at \<open>0x1000\<close> and
  \<open>0x2000\<close>, and with the default text offset its document lists only \<open>lib.dll\<close>, with
  segment address \<open>0x3000\<close>.
\<close>

theorem module_list_of_dump:
  "snd (windows_core_xfer_shared_libraries env g core_bfd None offset len)
     = Some (library_list_document env g
               (drop 1 (List.map_filter (decode_module env g) core_bfd)))
   \<and> fst (windows_core_xfer_shared_libraries env g core_bfd None offset len)
     = take len (drop offset
         (library_list_document env g
            (drop 1 (List.map_filter (decode_module env g) core_bfd))))
   \<and> library_list_document env g ms
     = ''<library-list>'' @ [CHR 0x0A] @ concat (map (library_element env g) ms)
       @ ''</library-list>'' @ [CHR 0x0A]
   \<and> library_element env g (name, load_addr)
     = ''<library name='' @ [CHR 0x22] @ xml_escape_text name @ [CHR 0x22]
       @ ''><segment address='' @ [CHR 0x22]
       @ paddress g (load_addr + text_offset_of env name) @ [CHR 0x22] @ ''/></library>''
   \<and> List.map_filter (decode_module example_env example_gdbarch)
         [example_app_section, example_lib_section]
     = [(''app.exe'', 0x1000), (''lib.dll'', 0x2000)]
   \<and> snd (windows_core_xfer_shared_libraries example_env example_gdbarch
           [example_app_section, example_lib_section] None 0 0)
     = Some (example_document ''0x3000'')
   \<and> (sect_readable isect \<and> startswith (sect_name isect) ''.coremodule/''
        \<longrightarrow> decode_module env g isect
              = Some (c_string (wide_to_host g (sect_contents isect)),
                      (case sscanf_llx (drop 12 (sect_name isect)) of
                         Some a \<Rightarrow> a | None \<Rightarrow> indeterminate_base_addr env)))
   \<and> (sect_readable isect \<and> startswith (sect_name isect) ''.coremodule/''
        \<longrightarrow> (fst (the (decode_module env g isect)) = wide_to_host g (sect_contents isect)
              \<longleftrightarrow> NUL \<notin> set (wide_to_host g (sect_contents isect))))
   \<and> (sect_readable sect32 \<and> startswith (sect_name sect32) ''.module''
        \<and> 4 \<le> bfd_section_size sect32
        \<and> (ucast (extract_unsigned_integer (take 4 (sect_contents sect32))
                     (gdbarch_byte_order g)) :: 32 word) = NOTE_INFO_MODULE
        \<and> 12 + unat (extract_unsigned_integer (take 4 (drop 8 (sect_contents sect32)))
                        (gdbarch_byte_order g)) \<le> bfd_section_size sect32
        \<longrightarrow> decode_module env g sect32
              = Some (c_string (chars_of_bytes (drop 12 (sect_contents sect32))),
                      extract_unsigned_integer (take 4 (drop 4 (sect_contents sect32)))
                        (gdbarch_byte_order g)))
   \<and> (sect_readable sect32 \<and> startswith (sect_name sect32) ''.module''
        \<and> 4 \<le> bfd_section_size sect32
        \<and> (ucast (extract_unsigned_integer (take 4 (sect_contents sect32))
                     (gdbarch_byte_order g)) :: 32 word) = NOTE_INFO_MODULE
        \<and> 12 + unat (extract_unsigned_integer (take 4 (drop 8 (sect_contents sect32)))
                        (gdbarch_byte_order g)) \<le> bfd_section_size sect32
        \<and> take (unat (extract_unsigned_integer (take 4 (drop 8 (sect_contents sect32)))
                         (gdbarch_byte_order g)))
             (drop 12 (sect_contents sect32)) = s32 @ [0]
        \<and> 0 \<notin> set s32
        \<longrightarrow> decode_module env g sect32
              = Some (chars_of_bytes s32,
                      extract_unsigned_integer (take 4 (drop 4 (sect_contents sect32)))
                        (gdbarch_byte_order g)))
   \<and> (sect_readable sect64 \<and> startswith (sect_name sect64) ''.module''
        \<and> 4 \<le> bfd_section_size sect64
        \<and> (ucast (extract_unsigned_integer (take 4 (sect_contents sect64))
                     (gdbarch_byte_order g)) :: 32 word) = NOTE_INFO_MODULE64
        \<and> 16 + unat (extract_unsigned_integer (take 4 (drop 12 (sect_contents sect64)))
                        (gdbarch_byte_order g)) \<le> bfd_section_size sect64
        \<longrightarrow> decode_module env g sect64
              = Some (c_string (chars_of_bytes (drop 16 (sect_contents sect64))),
                      extract_unsigned_integer (take 8 (drop 4 (sect_contents sect64)))
                        (gdbarch_byte_order g)))
   \<and> (sect_readable sect64 \<and> startswith (sect_name sect64) ''.module''
        \<and> 4 \<le> bfd_section_size sect64
        \<and> (ucast (extract_unsigned_integer (take 4 (sect_contents sect64))
                     (gdbarch_byte_order g)) :: 32 word) = NOTE_INFO_MODULE64
        \<and> 16 + unat (extract_unsigned_integer (take 4 (drop 12 (sect_contents sect64)))
                        (gdbarch_byte_order g)) \<le> bfd_section_size sect64
        \<and> take (unat (extract_unsigned_integer (take 4 (drop 12 (sect_contents sect64)))
                         (gdbarch_byte_order g)))
             (drop 16 (sect_contents sect64)) = s64 @ [0]
        \<and> 0 \<notin> set s64
        \<longrightarrow> decode_module env g sect64
              = Some (chars_of_bytes s64,
                      extract_unsigned_integer (take 8 (drop 4 (sect_contents sect64)))
                        (gdbarch_byte_order g)))
   \<and> wide_to_host example_gdbarch (sect_contents example_nul_section)
     = [CHR ''a'', NUL, CHR ''b'']
   \<and> decode_module example_env example_gdbarch example_nul_section = Some (''a'', 0x3000)
   \<and> snd (windows_core_xfer_shared_libraries example_env example_gdbarch
           [example_app_section, example_nul_section] None 0 0)
     = Some (''<library-list>'' @ [CHR 0x0A]
             @ ''<library name='' @ [CHR 0x22] @ ''a'' @ [CHR 0x22]
             @ ''><segment address='' @ [CHR 0x22] @ ''0x4000'' @ [CHR 0x22]
             @ ''/></library>''
             @ ''</library-list>'' @ [CHR 0x0A])
   \<and> decode_module example_env example_gdbarch example_long_section
     = Some (''a.eXYZ'', 0x400000)
   \<and> (decode_module env g sect \<noteq> None
        \<longleftrightarrow> sect_readable sect
            \<and> (startswith (sect_name sect) ''.coremodule/''
               \<or> (startswith (sect_name sect) ''.module'' \<and> \<not> legacy_rejected g sect)))"
proof -
  have sc: "List.map_filter (decode_module example_env example_gdbarch)
         [example_app_section, example_lib_section]
     = [(''app.exe'', 0x1000), (''lib.dll'', 0x2000)]"
    by (simp add: List.map_filter_simps example_decode_app example_decode_lib)
  have doc: "snd (windows_core_xfer_shared_libraries example_env example_gdbarch
           [example_app_section, example_lib_section] None 0 0)
     = Some (example_document ''0x3000'')"
    unfolding xfer_shared_libraries_document sc by (simp add: example_element_lib)
  have sn: "List.map_filter (decode_module example_env example_gdbarch)
         [example_app_section, example_nul_section]
     = [(''app.exe'', 0x1000), (''a'', 0x3000)]"
    by (simp add: List.map_filter_simps example_decode_app example_decode_nul)
  have docn: "snd (windows_core_xfer_shared_libraries example_env example_gdbarch
           [example_app_section, example_nul_section] None 0 0)
     = Some (''<library-list>'' @ [CHR 0x0A]
             @ ''<library name='' @ [CHR 0x22] @ ''a'' @ [CHR 0x22]
             @ ''><segment address='' @ [CHR 0x22] @ ''0x4000'' @ [CHR 0x22]
             @ ''/></library>''
             @ ''</library-list>'' @ [CHR 0x0A])"
    unfolding xfer_shared_libraries_document sn
    using example_nul_document by simp
  have g1: "snd (windows_core_xfer_shared_libraries env g core_bfd None offset len)
     = Some (library_list_document env g
               (drop 1 (List.map_filter (decode_module env g) core_bfd)))"
    by (simp add: xfer_shared_libraries_document)
  have g2: "fst (windows_core_xfer_shared_libraries env g core_bfd None offset len)
     = take len (drop offset
         (library_list_document env g
            (drop 1 (List.map_filter (decode_module env g) core_bfd))))"
    by (simp add: xfer_shared_libraries_document)
  have g3: "library_list_document env g ms
     = ''<library-list>'' @ [CHR 0x0A] @ concat (map (library_element env g) ms)
       @ ''</library-list>'' @ [CHR 0x0A]"
    by (simp add: library_list_document_def)
  have g4: "library_element env g (name, load_addr)
     = ''<library name='' @ [CHR 0x22] @ xml_escape_text name @ [CHR 0x22]
       @ ''><segment address='' @ [CHR 0x22]
       @ paddress g (load_addr + text_offset_of env name) @ [CHR 0x22] @ ''/></library>''"
    by (simp add: library_element_def)
  have n1: "sect_readable isect \<and> startswith (sect_name isect) ''.coremodule/''
        \<longrightarrow> decode_module env g isect
              = Some (c_string (wide_to_host g (sect_contents isect)),
                      (case sscanf_llx (drop 12 (sect_name isect)) of
                         Some a \<Rightarrow> a | None \<Rightarrow> indeterminate_base_addr env))"
    using decode_module_indexed [of isect env g] by blast
  have n2: "sect_readable isect \<and> startswith (sect_name isect) ''.coremodule/''
        \<longrightarrow> (fst (the (decode_module env g isect)) = wide_to_host g (sect_contents isect)
              \<longleftrightarrow> NUL \<notin> set (wide_to_host g (sect_contents isect)))"
  proof
    assume h: "sect_readable isect \<and> startswith (sect_name isect) ''.coremodule/''"
    have "fst (the (decode_module env g isect))
            = c_string (wide_to_host g (sect_contents isect))"
      using decode_module_indexed [OF h, of env g] by simp
    moreover have "c_string (wide_to_host g (sect_contents isect))
                     = wide_to_host g (sect_contents isect)
                   \<longleftrightarrow> NUL \<notin> set (wide_to_host g (sect_contents isect))"
      using c_string_no_NUL [of "wide_to_host g (sect_contents isect)"]
            NUL_notin_c_string [of "wide_to_host g (sect_contents isect)"]
      by auto
    ultimately show "fst (the (decode_module env g isect))
                       = wide_to_host g (sect_contents isect)
                     \<longleftrightarrow> NUL \<notin> set (wide_to_host g (sect_contents isect))"
      by simp
  qed
  have n3: "sect_readable sect32 \<and> startswith (sect_name sect32) ''.module''
        \<and> 4 \<le> bfd_section_size sect32
        \<and> (ucast (extract_unsigned_integer (take 4 (sect_contents sect32))
                     (gdbarch_byte_order g)) :: 32 word) = NOTE_INFO_MODULE
        \<and> 12 + unat (extract_unsigned_integer (take 4 (drop 8 (sect_contents sect32)))
                        (gdbarch_byte_order g)) \<le> bfd_section_size sect32
        \<longrightarrow> decode_module env g sect32
              = Some (c_string (chars_of_bytes (drop 12 (sect_contents sect32))),
                      extract_unsigned_integer (take 4 (drop 4 (sect_contents sect32)))
                        (gdbarch_byte_order g))"
    using decode_module_legacy32 [of sect32 g env] by blast
  have n4: "sect_readable sect32 \<and> startswith (sect_name sect32) ''.module''
        \<and> 4 \<le> bfd_section_size sect32
        \<and> (ucast (extract_unsigned_integer (take 4 (sect_contents sect32))
                     (gdbarch_byte_order g)) :: 32 word) = NOTE_INFO_MODULE
        \<and> 12 + unat (extract_unsigned_integer (take 4 (drop 8 (sect_contents sect32)))
                        (gdbarch_byte_order g)) \<le> bfd_section_size sect32
        \<and> take (unat (extract_unsigned_integer (take 4 (drop 8 (sect_contents sect32)))
                         (gdbarch_byte_order g)))
             (drop 12 (sect_contents sect32)) = s32 @ [0]
        \<and> 0 \<notin> set s32
        \<longrightarrow> decode_module env g sect32
              = Some (chars_of_bytes s32,
                      extract_unsigned_integer (take 4 (drop 4 (sect_contents sect32)))
                        (gdbarch_byte_order g))"
    using n3 declared_name_exact [of _ 12 "sect_contents sect32" s32] by metis
  have n5: "sect_readable sect64 \<and> startswith (sect_name sect64) ''.module''
        \<and> 4 \<le> bfd_section_size sect64
        \<and> (ucast (extract_unsigned_integer (take 4 (sect_contents sect64))
                     (gdbarch_byte_order g)) :: 32 word) = NOTE_INFO_MODULE64
        \<and> 16 + unat (extract_unsigned_integer (take 4 (drop 12 (sect_contents sect64)))
                        (gdbarch_byte_order g)) \<le> bfd_section_size sect64
        \<longrightarrow> decode_module env g sect64
              = Some (c_string (chars_of_bytes (drop 16 (sect_contents sect64))),
                      extract_unsigned_integer (take 8 (drop 4 (sect_contents sect64)))
                        (gdbarch_byte_order g))"
    using decode_module_legacy64 [of sect64 g env] by blast
  have n6: "sect_readable sect64 \<and> startswith (sect_name sect64) ''.module''
        \<and> 4 \<le> bfd_section_size sect64
        \<and> (ucast (extract_unsigned_integer (take 4 (sect_contents sect64))
                     (gdbarch_byte_order g)) :: 32 word) = NOTE_INFO_MODULE64
        \<and> 16 + unat (extract_unsigned_integer (take 4 (drop 12 (sect_contents sect64)))
                        (gdbarch_byte_order g)) \<le> bfd_section_size sect64
        \<and> take (unat (extract_unsigned_integer (take 4 (drop 12 (sect_contents sect64)))
                         (gdbarch_byte_order g)))
             (drop 16 (sect_contents sect64)) = s64 @ [0]
        \<and> 0 \<notin> set s64
        \<longrightarrow> decode_module env g sect64
              = Some (chars_of_bytes s64,
                      extract_unsigned_integer (take 8 (drop 4 (sect_contents sect64)))
                        (gdbarch_byte_order g))"
    using n5 declared_name_exact [of _ 16 "sect_contents sect64" s64] by metis
  show ?thesis
    by (intro conjI)
       (rule g1 g2 g3 g4 sc doc n1 n2 n3 n4 n5 n6 example_nul_payload example_decode_nul
          docn example_decode_long decode_module_decoded)+
qed

theorem module_list_of_dump_witness:
  "sect_readable example_lib_section
   \<and> startswith (sect_name example_lib_section) ''.coremodule/''
   \<and> NUL \<notin> set (wide_to_host example_gdbarch (sect_contents example_lib_section))
   \<and> decode_module example_env example_gdbarch example_lib_section
     = Some (''lib.dll'', 0x2000)
   \<and> fst (the (decode_module example_env example_gdbarch example_lib_section))
     = wide_to_host example_gdbarch (sect_contents example_lib_section)
   \<and> sect_readable example_module32_section
   \<and> startswith (sect_name example_module32_section) ''.module''
   \<and> (ucast (extract_unsigned_integer (take 4 (sect_contents example_module32_section))
                (gdbarch_byte_order example_gdbarch)) :: 32 word) = NOTE_INFO_MODULE
   \<and> 12 + unat (extract_unsigned_integer
                   (take 4 (drop 8 (sect_contents example_module32_section)))
                   (gdbarch_byte_order example_gdbarch))
       \<le> bfd_section_size example_module32_section
   \<and> take (unat (extract_unsigned_integer
                    (take 4 (drop 8 (sect_contents example_module32_section)))
                    (gdbarch_byte_order example_gdbarch)))
        (drop 12 (sect_contents example_module32_section)) = [0x61, 0x2E, 0x65] @ [0]
   \<and> decode_module example_env example_gdbarch example_module32_section
     = Some (''a.e'', 0x400000)
   \<and> sect_readable example_module64_section
   \<and> startswith (sect_name example_module64_section) ''.module''
   \<and> (ucast (extract_unsigned_integer (take 4 (sect_contents example_module64_section))
                (gdbarch_byte_order example_gdbarch)) :: 32 word) = NOTE_INFO_MODULE64
   \<and> 16 + unat (extract_unsigned_integer
                   (take 4 (drop 12 (sect_contents example_module64_section)))
                   (gdbarch_byte_order example_gdbarch))
       \<le> bfd_section_size example_module64_section
   \<and> take (unat (extract_unsigned_integer
                    (take 4 (drop 12 (sect_contents example_module64_section)))
                    (gdbarch_byte_order example_gdbarch)))
        (drop 16 (sect_contents example_module64_section))
     = [0x6C, 0x69, 0x62, 0x2E, 0x64, 0x6C, 0x6C] @ [0]
   \<and> decode_module example_env example_gdbarch example_module64_section
     = Some (''lib.dll'', 0x400000)"
proof -
  note inst = module_list_of_dump
    [where env = example_env and g = example_gdbarch and core_bfd = "[]"
       and offset = 0 and len = 0 and ms = "[]" and name = "[]" and load_addr = 0
       and isect = example_lib_section and sect = example_lib_section
       and ?sect32.0 = example_module32_section and ?s32.0 = "[0x61, 0x2E, 0x65]"
       and ?sect64.0 = example_module64_section
       and ?s64.0 = "[0x6C, 0x69, 0x62, 0x2E, 0x64, 0x6C, 0x6C]"]
  have nonul: "NUL \<notin> set (wide_to_host example_gdbarch (sect_contents example_lib_section))"
    by (simp add: example_lib_payload NUL_def)
  have i1: "decode_module example_env example_gdbarch example_lib_section
              = Some (c_string (wide_to_host example_gdbarch
                                  (sect_contents example_lib_section)),
                      (case sscanf_llx (drop 12 (sect_name example_lib_section)) of
                         Some a \<Rightarrow> a | None \<Rightarrow> indeterminate_base_addr example_env))"
    using inst example_indexed_facts(1,2) by (elim conjE) simp
  have w1: "decode_module example_env example_gdbarch example_lib_section
              = Some (''lib.dll'', 0x2000)"
    using nonul unfolding i1
    by (simp add: c_string_no_NUL example_lib_payload example_indexed_facts(3))
  have i2: "fst (the (decode_module example_env example_gdbarch example_lib_section))
              = wide_to_host example_gdbarch (sect_contents example_lib_section)"
    using inst example_indexed_facts(1,2) nonul by (elim conjE) simp
  have h32: "take (unat (extract_unsigned_integer
                    (take 4 (drop 8 (sect_contents example_module32_section)))
                    (gdbarch_byte_order example_gdbarch)))
        (drop 12 (sect_contents example_module32_section)) = [0x61, 0x2E, 0x65] @ [0]"
    by (simp add: example_module32_facts)
  have z32: "(0 :: byte) \<notin> set [0x61, 0x2E, 0x65]" by simp
  have l32: "12 + unat (extract_unsigned_integer
                   (take 4 (drop 8 (sect_contents example_module32_section)))
                   (gdbarch_byte_order example_gdbarch))
       \<le> bfd_section_size example_module32_section"
    by (simp add: example_module32_facts)
  have i32: "decode_module example_env example_gdbarch example_module32_section
              = Some (chars_of_bytes [0x61, 0x2E, 0x65],
                      extract_unsigned_integer
                        (take 4 (drop 4 (sect_contents example_module32_section)))
                        (gdbarch_byte_order example_gdbarch))"
    using inst example_module32_facts(1,2,4) l32 h32 z32
    by (elim conjE) (simp add: example_module32_facts(3))
  have w32: "decode_module example_env example_gdbarch example_module32_section
               = Some (''a.e'', 0x400000)"
    unfolding i32 by (simp add: example_name_bytes example_module32_facts)
  have h64: "take (unat (extract_unsigned_integer
                    (take 4 (drop 12 (sect_contents example_module64_section)))
                    (gdbarch_byte_order example_gdbarch)))
        (drop 16 (sect_contents example_module64_section))
     = [0x6C, 0x69, 0x62, 0x2E, 0x64, 0x6C, 0x6C] @ [0]"
    by (simp add: example_module64_facts)
  have z64: "(0 :: byte) \<notin> set [0x6C, 0x69, 0x62, 0x2E, 0x64, 0x6C, 0x6C]" by simp
  have l64: "16 + unat (extract_unsigned_integer
                   (take 4 (drop 12 (sect_contents example_module64_section)))
                   (gdbarch_byte_order example_gdbarch))
       \<le> bfd_section_size example_module64_section"
    by (simp add: example_module64_facts)
  have i64: "decode_module example_env example_gdbarch example_module64_section
              = Some (chars_of_bytes [0x6C, 0x69, 0x62, 0x2E, 0x64, 0x6C, 0x6C],
                      extract_unsigned_integer
                        (take 8 (drop 4 (sect_contents example_module64_section)))
                        (gdbarch_byte_order example_gdbarch))"
    using inst example_module64_facts(1,2,4) l64 h64 z64
    by (elim conjE) (simp add: example_module64_facts(3))
  have w64: "decode_module example_env example_gdbarch example_module64_section
               = Some (''lib.dll'', 0x400000)"
    unfolding i64 by (simp add: example_name_bytes example_module64_facts)
  show ?thesis
    by (intro conjI)
       (rule example_indexed_facts(1,2) nonul w1 i2 example_module32_facts(1,2,4) l32 h32 w32
          example_module64_facts(1,2,4) l64 h64 w64)+
qed

text \<open>
  The claim as stated fails on the segment address: for the dump of the scenario the
  document gives \<open>lib.dll\<close> the segment address \<open>0x3000\<close>, not its load address
  \<open>0x2000\<close>.
\<close>

theorem module_list_segment_address_counterexample:
  "snd (windows_core_xfer_shared_libraries example_env example_gdbarch
          [example_app_section, example_lib_section] None 0 0)
     = Some (example_document ''0x3000'')
   \<and> snd (windows_core_xfer_shared_libraries example_env example_gdbarch
          [example_app_section, example_lib_section] None 0 0)
     \<noteq> Some (example_document ''0x2000'')"
proof -
  have sc: "List.map_filter (decode_module example_env example_gdbarch)
         [example_app_section, example_lib_section]
     = [(''app.exe'', 0x1000), (''lib.dll'', 0x2000)]"
    by (simp add: List.map_filter_simps example_decode_app example_decode_lib)
  have "snd (windows_core_xfer_shared_libraries example_env example_gdbarch
           [example_app_section, example_lib_section] None 0 0)
     = Some (example_document ''0x3000'')"
    unfolding xfer_shared_libraries_document sc by (simp add: example_element_lib)
  then show ?thesis using example_documents_differ by simp
qed

text \<open>
  C10. A legacy \<^verbatim>\<open>.module\<close> section that is rejected as malformed leaves the scan data as
  they are, the module counter included. So a dump that starts with such a section has the
  document of the remaining sections: the first module that the remaining sections decode
  to is the one left out of the list.
\<close>

theorem rejected_legacy_section_not_counted:
  "legacy_rejected g sect \<longrightarrow>
     core_process_module_section env g sect data = data
     \<and> module_count (core_process_module_section env g sect data) = module_count data
     \<and> windows_core_xfer_shared_libraries env g (sect # rest) None offset len
         = windows_core_xfer_shared_libraries env g rest None offset len
     \<and> snd (windows_core_xfer_shared_libraries env g (sect # rest) None offset len)
         = Some (library_list_document env g
                   (drop 1 (List.map_filter (decode_module env g) rest)))"
proof
  assume "legacy_rejected g sect"
  then have none: "decode_module env g sect = None"
    by (rule legacy_rejected_decode)
  then have step: "core_process_module_section env g sect data = data"
    by (simp add: core_process_module_section_decode)
  show "core_process_module_section env g sect data = data
     \<and> module_count (core_process_module_section env g sect data) = module_count data
     \<and> windows_core_xfer_shared_libraries env g (sect # rest) None offset len
         = windows_core_xfer_shared_libraries env g rest None offset len
     \<and> snd (windows_core_xfer_shared_libraries env g (sect # rest) None offset len)
         = Some (library_list_document env g
                   (drop 1 (List.map_filter (decode_module env g) rest)))"
    using step none by (simp add: xfer_shared_libraries_document)
qed

theorem rejected_legacy_section_not_counted_witness:
  "legacy_rejected example_gdbarch example_bad_module_section
   \<and> core_process_module_section example_env example_gdbarch example_bad_module_section
        \<lparr>cpms_obstack = ''<library-list>'' @ [CHR 0x0A], module_count = 0\<rparr>
       = \<lparr>cpms_obstack = ''<library-list>'' @ [CHR 0x0A], module_count = 0\<rparr>
   \<and> snd (windows_core_xfer_shared_libraries example_env example_gdbarch
          [example_bad_module_section, example_app_section, example_lib_section] None 0 0)
       = Some (example_document ''0x3000'')"
proof -
  note main = rejected_legacy_section_not_counted [where g = example_gdbarch
      and env = example_env and sect = example_bad_module_section
      and rest = "[example_app_section, example_lib_section]" and offset = 0 and len = 0]
  have a: "core_process_module_section example_env example_gdbarch example_bad_module_section
        \<lparr>cpms_obstack = ''<library-list>'' @ [CHR 0x0A], module_count = 0\<rparr>
       = \<lparr>cpms_obstack = ''<library-list>'' @ [CHR 0x0A], module_count = 0\<rparr>"
    using main [where data = "\<lparr>cpms_obstack = ''<library-list>'' @ [CHR 0x0A],
        module_count = 0\<rparr>"] example_bad_rejected by blast
  have "snd (windows_core_xfer_shared_libraries example_env example_gdbarch
          [example_bad_module_section, example_app_section, example_lib_section] None 0 0)
       = Some (library_list_document example_env example_gdbarch
           (drop 1 (List.map_filter (decode_module example_env example_gdbarch)
              [example_app_section, example_lib_section])))"
    using main [where data = "\<lparr>cpms_obstack = [], module_count = 0\<rparr>"]
      example_bad_rejected by blast
  then have b: "snd (windows_core_xfer_shared_libraries example_env example_gdbarch
          [example_bad_module_section, example_app_section, example_lib_section] None 0 0)
       = Some (example_document ''0x3000'')"
    by (simp add: List.map_filter_simps example_decode_app example_decode_lib
          example_element_lib)
  from example_bad_rejected a b show ?thesis by blast
qed

end
